theory Spec2Isabelle
  imports Complex_Main
begin

section \<open>Python strings\<close>

text \<open>
  A Python \<open>str\<close> is modelled as a \<open>string\<close>: a list of 8-bit characters, read as the
  code points 0..255. On these code points \<open>str.isspace\<close> (and the regular expression
  class \<open>\s\<close>) holds of the twelve characters below, and the class \<open>\d\<close> holds of the
  ten ASCII digits only.
\<close>

definition whitespace_chars :: "char list" where
  "whitespace_chars =
     [CHR 0x09, CHR 0x0A, CHR 0x0B, CHR 0x0C, CHR 0x0D, CHR 0x1C, CHR 0x1D, CHR 0x1E,
      CHR 0x1F, CHR 0x20, CHR 0x85, CHR 0xA0]"

definition is_space :: "char \<Rightarrow> bool" where
  "is_space c = (c \<in> set whitespace_chars)"

definition is_digit :: "char \<Rightarrow> bool" where
  "is_digit c = (c \<in> set ''0123456789'')"

definition is_lower :: "char \<Rightarrow> bool" where
  "is_lower c = (c \<in> set ''abcdefghijklmnopqrstuvwxyz'')"

definition is_upper :: "char \<Rightarrow> bool" where
  "is_upper c = (c \<in> set ''ABCDEFGHIJKLMNOPQRSTUVWXYZ'')"

definition is_alpha :: "char \<Rightarrow> bool" where
  "is_alpha c = (is_lower c \<or> is_upper c)"

text \<open>\<open>s.strip()\<close>: whitespace removed at both ends.\<close>

definition py_strip :: "string \<Rightarrow> string" where
  "py_strip s = rev (dropWhile is_space (rev (dropWhile is_space s)))"

text \<open>
  \<open>s.upper()\<close> and \<open>s.lower()\<close> on the ASCII letters. Python also maps some non-ASCII
  letters; none of them maps to a string that occurs in the tables this model compares
  with (state codes, file extensions), so they are left as they are.
\<close>

definition upper_char :: "char \<Rightarrow> char" where
  "upper_char c =
     (case map_of (zip ''abcdefghijklmnopqrstuvwxyz'' ''ABCDEFGHIJKLMNOPQRSTUVWXYZ'') c of
        Some u \<Rightarrow> u
      | None \<Rightarrow> c)"

definition lower_char :: "char \<Rightarrow> char" where
  "lower_char c =
     (case map_of (zip ''ABCDEFGHIJKLMNOPQRSTUVWXYZ'' ''abcdefghijklmnopqrstuvwxyz'') c of
        Some l \<Rightarrow> l
      | None \<Rightarrow> c)"

definition py_upper :: "string \<Rightarrow> string" where
  "py_upper s = map upper_char s"

definition py_lower :: "string \<Rightarrow> string" where
  "py_lower s = map lower_char s"

text \<open>\<open>s.isdigit()\<close>: non-empty and digits only.\<close>

definition py_isdigit :: "string \<Rightarrow> bool" where
  "py_isdigit s = (s \<noteq> [] \<and> list_all is_digit s)"

text \<open>
  \<open>s.split(sep)\<close> for a non-empty separator: the pieces between the non-overlapping
  occurrences of \<open>sep\<close>, found from the left. The result always has at least one piece.
\<close>

fun py_split_aux :: "string \<Rightarrow> string \<Rightarrow> string \<Rightarrow> string list" where
  "py_split_aux sep cur [] = [rev cur]"
| "py_split_aux sep cur (c # cs) =
     (if sep \<noteq> [] \<and> take (length sep) (c # cs) = sep
      then rev cur # py_split_aux sep [] (drop (length sep - 1) cs)
      else py_split_aux sep (c # cur) cs)"

definition py_split :: "string \<Rightarrow> string \<Rightarrow> string list" where
  "py_split sep s = py_split_aux sep [] s"

text \<open>\<open>s.split()\<close>: the maximal runs of non-whitespace characters.\<close>

fun py_split_ws_aux :: "string \<Rightarrow> string \<Rightarrow> string list" where
  "py_split_ws_aux cur [] = (if cur = [] then [] else [rev cur])"
| "py_split_ws_aux cur (c # cs) =
     (if is_space c
      then (if cur = [] then py_split_ws_aux [] cs else rev cur # py_split_ws_aux [] cs)
      else py_split_ws_aux (c # cur) cs)"

definition py_split_ws :: "string \<Rightarrow> string list" where
  "py_split_ws s = py_split_ws_aux [] s"

text \<open>\<open>sep.join(xs)\<close>.\<close>

fun py_join :: "string \<Rightarrow> string list \<Rightarrow> string" where
  "py_join sep [] = []"
| "py_join sep [x] = x"
| "py_join sep (x # y # ys) = x @ sep @ py_join sep (y # ys)"

text \<open>\<open>re.sub(r'\s+', ' ', s)\<close>: every maximal run of whitespace becomes one space.\<close>

fun collapse_ws :: "bool \<Rightarrow> string \<Rightarrow> string" where
  "collapse_ws in_run [] = []"
| "collapse_ws in_run (c # cs) =
     (if is_space c
      then (if in_run then collapse_ws True cs else CHR '' '' # collapse_ws True cs)
      else c # collapse_ws False cs)"

definition sub_whitespace :: "string \<Rightarrow> string" where
  "sub_whitespace s = collapse_ws False s"

text \<open>The quotation mark that the f-strings put around an offending value.\<close>

definition quoted :: "string \<Rightarrow> string" where
  "quoted s = [CHR 0x27] @ s @ [CHR 0x27]"


section \<open>Python floats\<close>

text \<open>
  A Python \<open>float\<close> is an IEEE 754 binary64 number: a finite value, one of the two
  infinities, or a NaN. A finite value is kept as the real number it denotes, so the two
  zeros are one value here; they compare equal and the code under study never tells them
  apart. Every operation computes the exact real result and rounds it to the nearest
  double, ties to the even significand.

  \<open>binary_exponent a\<close> is the exponent of the binade of \<open>a > 0\<close>: the largest \<open>k\<close>
  with \<open>2 powi k \<le> a\<close>, kept between -1022 (where the subnormal numbers begin) and 1023.
  The doubles of that binade are the multiples of \<open>2 powi (k - 52)\<close>.
\<close>

function exponent_up :: "int \<Rightarrow> real \<Rightarrow> int" where
  "exponent_up k a = (if k < 1023 \<and> 2 powi (k + 1) \<le> a then exponent_up (k + 1) a else k)"
  by pat_completeness auto
termination
  by (relation "measure (\<lambda>(k, a). nat (1023 - k))") auto

function exponent_down :: "int \<Rightarrow> real \<Rightarrow> int" where
  "exponent_down k a = (if - 1022 < k \<and> a < 2 powi k then exponent_down (k - 1) a else k)"
  by pat_completeness auto
termination
  by (relation "measure (\<lambda>(k, a). nat (k + 1022))") auto

declare exponent_up.simps [simp del] exponent_down.simps [simp del]

definition binary_exponent :: "real \<Rightarrow> int" where
  "binary_exponent a = (if 1 \<le> a then exponent_up 0 a else exponent_down (- 1) a)"

definition round_half_even :: "real \<Rightarrow> int" where
  "round_half_even r =
     (let f = \<lfloor>r\<rfloor>; d = r - of_int f
      in if d < 1 / 2 then f else if 1 / 2 < d then f + 1 else if even f then f else f + 1)"

datatype double = Finite real | PosInf | NegInf | NaN

text \<open>
  Rounding a real number to a double. A result that reaches \<open>2 powi 1024\<close> after the
  rounding of the significand overflows to an infinity.
\<close>

definition round_double :: "real \<Rightarrow> double" where
  "round_double x =
     (if x = 0 then Finite 0
      else (let a = \<bar>x\<bar>;
                e = binary_exponent a - 52;
                m = round_half_even (a / 2 powi e);
                y = of_int m * 2 powi e
            in if 2 powi 1024 \<le> y then (if 0 < x then PosInf else NegInf)
               else Finite (if 0 < x then y else - y)))"

text \<open>
  A decimal literal of the source, such as \<open>0.2\<close>, denotes the double nearest to it.
  \<open>double_of_nat\<close> is the conversion that \<open>0.2 * len(validation_issues)\<close> applies to its
  integer operand (exact below \<open>2 ^ 53\<close>, which no list length exceeds).
\<close>

definition float_literal :: "real \<Rightarrow> double" where
  "float_literal q = round_double q"

definition double_of_nat :: "nat \<Rightarrow> double" where
  "double_of_nat n = round_double (of_nat n)"

definition signed_inf :: "bool \<Rightarrow> double" where
  "signed_inf positive = (if positive then PosInf else NegInf)"

text \<open>The operators \<open>-\<close>, \<open>*\<close> and \<open><\<close> on floats.\<close>

fun double_sub :: "double \<Rightarrow> double \<Rightarrow> double" where
  "double_sub (Finite a) (Finite b) = round_double (a - b)"
| "double_sub (Finite a) PosInf = NegInf"
| "double_sub (Finite a) NegInf = PosInf"
| "double_sub PosInf (Finite b) = PosInf"
| "double_sub PosInf NegInf = PosInf"
| "double_sub NegInf (Finite b) = NegInf"
| "double_sub NegInf PosInf = NegInf"
| "double_sub _ _ = NaN"

fun double_mul :: "double \<Rightarrow> double \<Rightarrow> double" where
  "double_mul (Finite a) (Finite b) = round_double (a * b)"
| "double_mul (Finite a) PosInf = (if a = 0 then NaN else signed_inf (0 < a))"
| "double_mul (Finite a) NegInf = (if a = 0 then NaN else signed_inf (a < 0))"
| "double_mul PosInf (Finite b) = (if b = 0 then NaN else signed_inf (0 < b))"
| "double_mul NegInf (Finite b) = (if b = 0 then NaN else signed_inf (b < 0))"
| "double_mul PosInf PosInf = PosInf"
| "double_mul PosInf NegInf = NegInf"
| "double_mul NegInf PosInf = NegInf"
| "double_mul NegInf NegInf = PosInf"
| "double_mul _ _ = NaN"

fun double_less :: "double \<Rightarrow> double \<Rightarrow> bool" where
  "double_less (Finite a) (Finite b) = (a < b)"
| "double_less (Finite a) PosInf = True"
| "double_less NegInf (Finite b) = True"
| "double_less NegInf PosInf = True"
| "double_less _ _ = False"

text \<open>
  The builtins \<open>min(a, b)\<close> and \<open>max(a, b)\<close> return their first argument unless the
  second is strictly smaller (for \<open>max\<close>: strictly larger); a comparison with a NaN is
  false, so a NaN in first place is returned.
\<close>

definition py_min :: "double \<Rightarrow> double \<Rightarrow> double" where
  "py_min a b = (if double_less b a then b else a)"

definition py_max :: "double \<Rightarrow> double \<Rightarrow> double" where
  "py_max a b = (if double_less a b then b else a)"


section \<open>DocumentValidator\<close>

definition validate_ein_ssn :: "string \<Rightarrow> bool" where
  "validate_ein_ssn ein_ssn =
     (if ein_ssn = [] then False
      else (let clean_ein = filter is_digit ein_ssn
            in length clean_ein = 9 \<and> py_isdigit clean_ein))"

definition validate_zip :: "string \<Rightarrow> bool" where
  "validate_zip zip_code =
     (if zip_code = [] then False
      else (let clean_zip = filter is_digit zip_code
            in length clean_zip = 5 \<and> py_isdigit clean_zip))"

text \<open>
  \<open>float(s)\<close> on a string of digits and points succeeds exactly when there is a digit
  and at most one point.
\<close>

definition float_parses :: "string \<Rightarrow> bool" where
  "float_parses s = (list_ex is_digit s \<and> length (filter (\<lambda>c. c = CHR ''.'') s) \<le> 1)"

definition validate_amount :: "string \<Rightarrow> bool" where
  "validate_amount amount =
     (if amount = [] then True
      else (let clean_amount = filter (\<lambda>c. is_digit c \<or> c = CHR ''.'') amount
            in if clean_amount = [] then False else float_parses clean_amount))"

definition validate_phone :: "string \<Rightarrow> bool" where
  "validate_phone phone =
     (if phone = [] then False
      else (let clean_phone = filter is_digit phone
            in length clean_phone = 10 \<and> py_isdigit clean_phone))"

text \<open>
  The pattern \<open>^[a-zA-Z0-9._%+-]+@[a-zA-Z0-9.-]+\.[a-zA-Z]{2,}$\<close>. The characters of the
  first class exclude \<open>@\<close>, so the local part is the longest prefix in that class; the
  letters exclude the point, so the top-level domain is the longest suffix of letters.
\<close>

definition email_local_char :: "char \<Rightarrow> bool" where
  "email_local_char c = (is_alpha c \<or> is_digit c \<or> c \<in> set ''._%+-'')"

definition email_domain_char :: "char \<Rightarrow> bool" where
  "email_domain_char c = (is_alpha c \<or> is_digit c \<or> c \<in> set ''.-'')"

definition match_email_pattern :: "string \<Rightarrow> bool" where
  "match_email_pattern s =
     (let local_part = takeWhile email_local_char s;
          rest = dropWhile email_local_char s
      in local_part \<noteq> [] \<and>
         (case rest of
            [] \<Rightarrow> False
          | c # after_at \<Rightarrow>
              c = CHR ''@'' \<and>
              (let tld = takeWhile is_alpha (rev after_at);
                   before_tld = dropWhile is_alpha (rev after_at)
               in 2 \<le> length tld \<and>
                  (case before_tld of
                     [] \<Rightarrow> False
                   | d # domain_rev \<Rightarrow>
                       d = CHR ''.'' \<and> domain_rev \<noteq> [] \<and> list_all email_domain_char domain_rev))))"

definition validate_email :: "string \<Rightarrow> bool" where
  "validate_email email = (if email = [] then False else match_email_pattern (py_strip email))"

definition valid_states :: "string list" where
  "valid_states =
     [''AL'', ''AK'', ''AZ'', ''AR'', ''CA'', ''CO'', ''CT'', ''DE'', ''FL'', ''GA'',
      ''HI'', ''ID'', ''IL'', ''IN'', ''IA'', ''KS'', ''KY'', ''LA'', ''ME'', ''MD'',
      ''MA'', ''MI'', ''MN'', ''MS'', ''MO'', ''MT'', ''NE'', ''NV'', ''NH'', ''NJ'',
      ''NM'', ''NY'', ''NC'', ''ND'', ''OH'', ''OK'', ''OR'', ''PA'', ''RI'', ''SC'',
      ''SD'', ''TN'', ''TX'', ''UT'', ''VT'', ''VA'', ''WA'', ''WV'', ''WI'', ''WY'',
      ''DC'']"

definition validate_state :: "string \<Rightarrow> bool" where
  "validate_state state =
     (if state = [] then False else py_strip (py_upper state) \<in> set valid_states)"

subsection \<open>The records of the pipeline\<close>

text \<open>
  The dictionaries that travel through the pipeline have a fixed set of keys, laid down by
  \<open>LLMParser.parse_document\<close>; they are records here. Every \<open>d.get(key, '')\<close> of the source
  reads a string field, for which a missing key and the empty string behave alike.
  \<open>confidence_score\<close> is the one key whose default (0.5) differs from what the extractor
  writes (0.7), so it is optional; its value is a float.
\<close>

record address =
  street :: string
  city :: string
  state :: string
  zip_field :: string

record contact_info =
  phone :: string
  email :: string

record business_info =
  business_type :: string
  annual_revenue :: string
  years_in_business :: string
  processing_volume :: string

record candidate =
  merchant_name :: string
  ein_or_ssn :: string
  document_type :: string
  address :: address
  contact_info :: contact_info
  business_info :: business_info
  requested_amount :: string
  source_file :: string
  confidence_score :: "double option"
  flagged_issues :: "string list"

text \<open>The dictionary after \<open>validate_document\<close>: the same keys and four more.\<close>

record validated =
  v_merchant_name :: string
  v_ein_or_ssn :: string
  v_document_type :: string
  v_address :: address
  v_contact_info :: contact_info
  v_business_info :: business_info
  v_requested_amount :: string
  v_source_file :: string
  v_confidence_score :: "double option"
  v_flagged_issues :: "string list"
  validation_status :: string
  requires_human_review :: bool
  validation_timestamp :: string


text \<open>
  The issues that one pass of \<open>validate_document\<close> raises (the local list
  \<open>validation_issues\<close> of the source), in the order in which the source appends them.
\<close>

definition required_fields :: "candidate \<Rightarrow> (string \<times> string) list" where
  "required_fields parsed_data =
     [(''merchant_name'', merchant_name parsed_data),
      (''document_type'', document_type parsed_data)]"

definition address_values :: "address \<Rightarrow> string list" where
  "address_values a = [street a, city a, state a, zip_field a]"

definition validation_issues :: "candidate \<Rightarrow> string list" where
  "validation_issues parsed_data =
     (let ein_ssn = ein_or_ssn parsed_data;
          zip_code = zip_field (address parsed_data);
          amount = requested_amount parsed_data;
          phone_no = phone (contact_info parsed_data);
          email_addr = email (contact_info parsed_data);
          state_code = state (address parsed_data);
          addr = address parsed_data
      in (if \<not> validate_ein_ssn ein_ssn
          then [''Invalid EIN/SSN format: '' @ quoted ein_ssn @ '' (must be exactly 9 digits)'']
          else [])
       @ (if \<not> validate_zip zip_code
          then [''Invalid ZIP code: '' @ quoted zip_code @ '' (must be exactly 5 digits)'']
          else [])
       @ (if amount \<noteq> [] \<and> \<not> validate_amount amount
          then [''Invalid requested amount: '' @ quoted amount @ '' (must be numeric)'']
          else [])
       @ (if phone_no \<noteq> [] \<and> \<not> validate_phone phone_no
          then [''Invalid phone format: '' @ quoted phone_no @ '' (must be 10 digits)'']
          else [])
       @ (if email_addr \<noteq> [] \<and> \<not> validate_email email_addr
          then [''Invalid email format: '' @ quoted email_addr]
          else [])
       @ (if state_code \<noteq> [] \<and> \<not> validate_state state_code
          then [''Invalid state: '' @ quoted state_code @ '' (must be 2-letter abbreviation)'']
          else [])
       @ concat (map (\<lambda>(field, v). if py_strip v = [] then [''Missing required field: '' @ field] else [])
                   (required_fields parsed_data))
       @ (if list_ex (\<lambda>v. v \<noteq> []) (address_values addr) \<and> \<not> list_all (\<lambda>v. v \<noteq> []) (address_values addr)
          then [''Incomplete address information'']
          else []))"

text \<open>\<open>parsed_data.get('confidence_score', 0.5)\<close>.\<close>

definition get_confidence_score :: "double option \<Rightarrow> double" where
  "get_confidence_score c = (case c of None \<Rightarrow> float_literal 0.5 | Some x \<Rightarrow> x)"

text \<open>
  \<open>validate_document\<close>. The reading of the clock (\<open>datetime.now().isoformat()\<close>) is the
  parameter \<open>now\<close>. The source updates the dictionary in place and returns it; the model
  returns the updated record.
\<close>

definition validate_document :: "string \<Rightarrow> candidate \<Rightarrow> validated" where
  "validate_document now parsed_data =
     (let issues = validation_issues parsed_data;
          existing_issues = flagged_issues parsed_data;
          all_issues = existing_issues @ issues
      in \<lparr> v_merchant_name = merchant_name parsed_data,
           v_ein_or_ssn = ein_or_ssn parsed_data,
           v_document_type = document_type parsed_data,
           v_address = address parsed_data,
           v_contact_info = contact_info parsed_data,
           v_business_info = business_info parsed_data,
           v_requested_amount = requested_amount parsed_data,
           v_source_file = source_file parsed_data,
           v_confidence_score =
             (if issues \<noteq> []
              then (let current_confidence = get_confidence_score (confidence_score parsed_data);
                        penalty = py_min (double_mul (float_literal 0.2)
                                                     (double_of_nat (length issues)))
                                         (float_literal 0.4)
                    in Some (py_max (double_sub current_confidence penalty)
                                    (float_literal 0.1)))
              else confidence_score parsed_data),
           v_flagged_issues = all_issues,
           validation_status = (if issues = [] then ''passed'' else ''failed''),
           requires_human_review = (length all_issues > 0),
           validation_timestamp = now \<rparr>)"

subsection \<open>Example records\<close>

definition empty_business_info :: business_info where
  "empty_business_info =
     \<lparr> business_type = '''', annual_revenue = '''', years_in_business = '''',
       processing_volume = '''' \<rparr>"

text \<open>
  The record of the second example of the specification: a short EIN, a short ZIP code, an
  unknown state, no merchant name and no document type; every other field empty. The
  confidence the extractor wrote is the parameter.
\<close>

definition five_issue_record :: "double \<Rightarrow> candidate" where
  "five_issue_record c =
     \<lparr> merchant_name = '''', ein_or_ssn = ''12345'', document_type = '''',
       address = \<lparr> street = '''', city = '''', state = ''ZZ'', zip_field = ''1234'' \<rparr>,
       contact_info = \<lparr> phone = '''', email = '''' \<rparr>,
       business_info = empty_business_info,
       requested_amount = '''', source_file = '''', confidence_score = Some c,
       flagged_issues = [] \<rparr>"

text \<open>A record that passes every rule, carrying the issues given.\<close>

definition clean_record :: "string list \<Rightarrow> candidate" where
  "clean_record issues =
     \<lparr> merchant_name = ''Acme'', ein_or_ssn = ''123-45-6789'', document_type = ''application'',
       address = \<lparr> street = ''1 Main St'', city = ''Boston'', state = ''MA'', zip_field = ''02134'' \<rparr>,
       contact_info = \<lparr> phone = '''', email = '''' \<rparr>,
       business_info = empty_business_info,
       requested_amount = '''', source_file = ''acme.pdf'',
       confidence_score = Some (float_literal 0.7),
       flagged_issues = issues \<rparr>"


section \<open>LLMParser\<close>

text \<open>
  A raised Python exception, with the text \<open>str(e)\<close> that the handlers log and store.
  A call that may raise returns a sum: \<open>Inl\<close> the exception, \<open>Inr\<close> the value.
\<close>

datatype py_exception = PyException (message: string)

subsection \<open>Cleaning a completion\<close>

definition clean_response :: "string \<Rightarrow> string" where
  "clean_response text =
     (let text1 = (if CHR '':'' \<in> set text then last (py_split '':'' text) else text);
          text2 = py_strip text1
      in sub_whitespace text2)"

text \<open>
  The post-processing as the specification words it, for comparison: split on the first
  colon and keep the remainder, collapse internal whitespace, trim.
\<close>

definition clean_response_first_colon :: "string \<Rightarrow> string" where
  "clean_response_first_colon text =
     (let remainder = (if CHR '':'' \<in> set text
                       then tl (dropWhile (\<lambda>c. c \<noteq> CHR '':'') text) else text)
      in py_strip (sub_whitespace remainder))"

subsection \<open>Chunking\<close>

text \<open>
  The loop of \<open>_chunk_text\<close> over the paragraphs, with its three variables \<open>chunks\<close>,
  \<open>current_chunk\<close> and \<open>current_length\<close>, and the flush after the loop.
\<close>

fun chunk_loop :: "nat \<Rightarrow> string list \<Rightarrow> string list \<Rightarrow> string list \<Rightarrow> nat \<Rightarrow> string list" where
  "chunk_loop max_length [] chunks current_chunk current_length =
     (if current_chunk \<noteq> [] then chunks @ [py_join '' '' current_chunk] else chunks)"
| "chunk_loop max_length (para # paragraphs) chunks current_chunk current_length =
     (let para_length = length (py_split_ws para)
      in if current_length + para_length > max_length
         then chunk_loop max_length paragraphs (chunks @ [py_join '' '' current_chunk])
                [para] para_length
         else chunk_loop max_length paragraphs chunks (current_chunk @ [para])
                (current_length + para_length))"

definition blank_line :: string where
  "blank_line = [CHR 0x0A, CHR 0x0A]"

definition chunk_text :: "string \<Rightarrow> nat \<Rightarrow> string list" where
  "chunk_text text max_length = chunk_loop max_length (py_split blank_line text) [] [] 0"

text \<open>
  The same loop, keeping the paragraphs of every chunk apart instead of joining them: the
  chunks of \<open>chunk_loop\<close> are the joined groups of \<open>group_loop\<close> (lemma
  \<open>chunk_loop_groups\<close> below).
\<close>

fun group_loop :: "nat \<Rightarrow> string list \<Rightarrow> string list list \<Rightarrow> string list \<Rightarrow> nat \<Rightarrow> string list list" where
  "group_loop max_length [] groups current_chunk current_length =
     (if current_chunk \<noteq> [] then groups @ [current_chunk] else groups)"
| "group_loop max_length (para # paragraphs) groups current_chunk current_length =
     (let para_length = length (py_split_ws para)
      in if current_length + para_length > max_length
         then group_loop max_length paragraphs (groups @ [current_chunk]) [para] para_length
         else group_loop max_length paragraphs groups (current_chunk @ [para])
                (current_length + para_length))"

definition paragraph_groups :: "string \<Rightarrow> nat \<Rightarrow> string list list" where
  "paragraph_groups text max_length = group_loop max_length (py_split blank_line text) [] [] 0"

definition word_count :: "string list \<Rightarrow> nat" where
  "word_count paragraphs = sum_list (map (\<lambda>p. length (py_split_ws p)) paragraphs)"

subsection \<open>Prompts\<close>

definition field_prompts :: "string \<Rightarrow> (string \<times> string) list" where
  "field_prompts text =
     [(''merchant_name'', ''Extract the merchant or business name from this text: '' @ text),
      (''ein_or_ssn'', ''Find the tax ID, EIN number, or SSN from this text: '' @ text),
      (''document_type'',
         ''What type of document is this (application, statement, invoice, etc.): '' @ text),
      (''requested_amount'', ''Extract the requested loan or funding amount from this text: '' @ text),
      (''address_street'',
         ''Extract only the street address (no city/state/zip) from this text: '' @ text),
      (''address_city'', ''Extract only the city name from this address information: '' @ text),
      (''address_state'',
         ''Extract only the state (2-letter abbreviation preferred) from this address: '' @ text),
      (''address_zip'', ''Extract only the ZIP code from this address: '' @ text),
      (''contact_phone'', ''Find the phone number from this text: '' @ text),
      (''contact_email'', ''Find the email address from this text: '' @ text),
      (''business_type'', ''What type of business is described in this text: '' @ text),
      (''annual_revenue'', ''Extract the annual revenue amount from this text: '' @ text),
      (''years_in_business'',
         ''How many years has this business been operating according to the text: '' @ text),
      (''processing_volume'', ''Find the credit card processing volume from this text: '' @ text)]"

definition get_field_prompt :: "string \<Rightarrow> string \<Rightarrow> string" where
  "get_field_prompt field text =
     (case map_of (field_prompts text) field of
        Some prompt \<Rightarrow> prompt
      | None \<Rightarrow> ''Extract the '' @ map (\<lambda>c. if c = CHR ''_'' then CHR '' '' else c) field
                  @ '' from this text: '' @ text)"

subsection \<open>The completion backend\<close>

text \<open>
  \<open>self.generator\<close> is the text-generation backend, a parameter of the model. A call
  raises or returns an object; \<open>parse_document\<close> looks at whether that object is a list,
  whether the list has a first element, and whether this element is a dictionary with the
  key \<open>generated_text\<close> (it then reads that entry, and otherwise \<open>str\<close> of the element).
  In the source the attribute is assigned by the \<open>__init__\<close> of a class nested inside
  \<open>LLMParser\<close>; on an object that lacks the attribute every call raises
  \<open>AttributeError\<close>, which is the backend that returns \<open>Inl\<close> for every prompt.
\<close>

datatype generated = GeneratedText string | OtherItem string

datatype response = ResponseList "generated list" | NotAList

type_synonym generator = "string \<Rightarrow> py_exception + response"

text \<open>The cleaned text of a response that is a non-empty list; \<open>None\<close> for any other.\<close>

definition response_text :: "response \<Rightarrow> string option" where
  "response_text response =
     (case response of
        ResponseList (GeneratedText t # _) \<Rightarrow> Some (clean_response t)
      | ResponseList (OtherItem s # _) \<Rightarrow> Some (clean_response s)
      | ResponseList [] \<Rightarrow> None
      | NotAList \<Rightarrow> None)"

subsection \<open>parse_document\<close>

definition structured_data :: "string option \<Rightarrow> candidate" where
  "structured_data filename =
     \<lparr> merchant_name = '''', ein_or_ssn = '''', document_type = ''application'',
       address = \<lparr> street = '''', city = '''', state = '''', zip_field = '''' \<rparr>,
       contact_info = \<lparr> phone = '''', email = '''' \<rparr>,
       business_info = \<lparr> business_type = '''', annual_revenue = '''', years_in_business = '''',
                         processing_volume = '''' \<rparr>,
       requested_amount = '''',
       source_file = (case filename of None \<Rightarrow> ''unknown''
                      | Some f \<Rightarrow> if f \<noteq> [] then f else ''unknown''),
       confidence_score = Some (float_literal 0.7),
       flagged_issues = [] \<rparr>"

text \<open>The assignments \<open>structured_data[field] = v\<close> and \<open>structured_data[group][field] = v\<close>.\<close>

definition set_direct :: "string \<Rightarrow> string \<Rightarrow> candidate \<Rightarrow> candidate" where
  "set_direct field v d =
     (if field = ''merchant_name'' then d\<lparr>merchant_name := v\<rparr>
      else if field = ''ein_or_ssn'' then d\<lparr>ein_or_ssn := v\<rparr>
      else if field = ''document_type'' then d\<lparr>document_type := v\<rparr>
      else if field = ''requested_amount'' then d\<lparr>requested_amount := v\<rparr>
      else d)"

definition set_address :: "string \<Rightarrow> string \<Rightarrow> candidate \<Rightarrow> candidate" where
  "set_address field v d =
     (if field = ''street'' then d\<lparr>address := (address d)\<lparr>street := v\<rparr>\<rparr>
      else if field = ''city'' then d\<lparr>address := (address d)\<lparr>city := v\<rparr>\<rparr>
      else if field = ''state'' then d\<lparr>address := (address d)\<lparr>state := v\<rparr>\<rparr>
      else if field = ''zip'' then d\<lparr>address := (address d)\<lparr>zip_field := v\<rparr>\<rparr>
      else d)"

definition set_contact :: "string \<Rightarrow> string \<Rightarrow> candidate \<Rightarrow> candidate" where
  "set_contact field v d =
     (if field = ''phone'' then d\<lparr>contact_info := (contact_info d)\<lparr>phone := v\<rparr>\<rparr>
      else if field = ''email'' then d\<lparr>contact_info := (contact_info d)\<lparr>email := v\<rparr>\<rparr>
      else d)"

definition set_business :: "string \<Rightarrow> string \<Rightarrow> candidate \<Rightarrow> candidate" where
  "set_business field v d =
     (if field = ''business_type''
      then d\<lparr>business_info := (business_info d)\<lparr>business_type := v\<rparr>\<rparr>
      else if field = ''annual_revenue''
      then d\<lparr>business_info := (business_info d)\<lparr>annual_revenue := v\<rparr>\<rparr>
      else if field = ''years_in_business''
      then d\<lparr>business_info := (business_info d)\<lparr>years_in_business := v\<rparr>\<rparr>
      else if field = ''processing_volume''
      then d\<lparr>business_info := (business_info d)\<lparr>processing_volume := v\<rparr>\<rparr>
      else d)"

text \<open>
  The loop over the direct fields: a response that is not a non-empty list stores the
  empty string. A call that raises ends the loop with the exception.
\<close>

fun process_direct_fields ::
  "generator \<Rightarrow> string \<Rightarrow> string list \<Rightarrow> candidate \<Rightarrow> py_exception + candidate" where
  "process_direct_fields gen chunk [] d = Inr d"
| "process_direct_fields gen chunk (field # others) d =
     (case gen (get_field_prompt field chunk) of
        Inl e \<Rightarrow> Inl e
      | Inr response \<Rightarrow>
          process_direct_fields gen chunk others
            (case response_text response of
               Some v \<Rightarrow> set_direct field v d
             | None \<Rightarrow> set_direct field '''' d))"

text \<open>
  The three loops over the nested fields, which differ in the prefix of the prompt key and
  in the dictionary they store into: a response that is not a non-empty list stores
  nothing.
\<close>

fun process_nested_fields ::
  "generator \<Rightarrow> string \<Rightarrow> string \<Rightarrow> (string \<Rightarrow> string \<Rightarrow> candidate \<Rightarrow> candidate) \<Rightarrow> string list
     \<Rightarrow> candidate \<Rightarrow> py_exception + candidate" where
  "process_nested_fields gen chunk key_prefix store [] d = Inr d"
| "process_nested_fields gen chunk key_prefix store (field # others) d =
     (case gen (get_field_prompt (key_prefix @ field) chunk) of
        Inl e \<Rightarrow> Inl e
      | Inr response \<Rightarrow>
          process_nested_fields gen chunk key_prefix store others
            (case response_text response of
               Some v \<Rightarrow> store field v d
             | None \<Rightarrow> d))"

definition direct_fields :: "string list" where
  "direct_fields = [''merchant_name'', ''ein_or_ssn'', ''document_type'', ''requested_amount'']"

definition address_fields :: "string list" where
  "address_fields = [''street'', ''city'', ''state'', ''zip'']"

definition contact_fields :: "string list" where
  "contact_fields = [''phone'', ''email'']"

definition business_fields :: "string list" where
  "business_fields =
     [''business_type'', ''annual_revenue'', ''years_in_business'', ''processing_volume'']"

text \<open>
  The four loops of \<open>parse_document\<close> on one chunk. The handler of \<open>parse_document\<close> logs
  the exception and raises it again, so an exception of any call is the result.
\<close>

definition parse_chunk :: "generator \<Rightarrow> string \<Rightarrow> candidate \<Rightarrow> py_exception + candidate" where
  "parse_chunk gen chunk d0 =
     (case process_direct_fields gen chunk direct_fields d0 of
        Inl e \<Rightarrow> Inl e
      | Inr d1 \<Rightarrow>
     (case process_nested_fields gen chunk ''address_'' set_address address_fields d1 of
        Inl e \<Rightarrow> Inl e
      | Inr d2 \<Rightarrow>
     (case process_nested_fields gen chunk ''contact_'' set_contact contact_fields d2 of
        Inl e \<Rightarrow> Inl e
      | Inr d3 \<Rightarrow>
          process_nested_fields gen chunk '''' set_business business_fields d3)))"

text \<open>
  \<open>parse_document\<close>: every prompt embeds \<open>chunks[0]\<close>, which raises \<open>IndexError\<close> on an
  empty list of chunks.
\<close>

definition parse_document :: "generator \<Rightarrow> string \<Rightarrow> string option \<Rightarrow> py_exception + candidate" where
  "parse_document gen text filename =
     (let chunks = chunk_text text 512
      in case chunks of
           [] \<Rightarrow> Inl (PyException ''list index out of range'')
         | chunk0 # _ \<Rightarrow> parse_chunk gen chunk0 (structured_data filename))"

text \<open>The fourteen prompt keys, in the order of the calls.\<close>

definition prompt_keys :: "string list" where
  "prompt_keys =
     direct_fields @ map (\<lambda>f. ''address_'' @ f) address_fields
       @ map (\<lambda>f. ''contact_'' @ f) contact_fields @ business_fields"


section \<open>CRMSubmitter\<close>

text \<open>
  The dictionary returned by \<open>_mock_crm_submit\<close>. Its keys differ from branch to
  branch; a key that is absent, or present with the value \<open>None\<close>, is \<open>None\<close> here.
\<close>

record crm_response =
  crm_status :: string
  reason :: "string option"
  crm_id :: "string option"
  timestamp :: "string option"
  submission_time :: "string option"
  processing_notes :: "string option"
  retry_suggested :: bool

text \<open>
  What the random number generator returns during one call: the value of
  \<open>random.random()\<close> and the decimal digits of the two \<open>random.randint\<close> results. The
  simulated delay (\<open>time.sleep\<close>) has no effect on the result.
\<close>

record random_draws =
  random_unit :: double
  pending_digits :: string
  crm_digits :: string

definition mock_crm_submit :: "random_draws \<Rightarrow> string \<Rightarrow> validated \<Rightarrow> crm_response" where
  "mock_crm_submit rnd now parsed_data =
     (if validation_status parsed_data = ''failed''
      then \<lparr> crm_status = ''rejected'',
             reason = Some ''Document failed validation checks'',
             crm_id = None, timestamp = Some now, submission_time = None,
             processing_notes = None, retry_suggested = False \<rparr>
      else (let confidence = get_confidence_score (v_confidence_score parsed_data)
            in if double_less confidence (float_literal 0.3)
               then \<lparr> crm_status = ''pending_review'',
                      reason = Some ''Low confidence score requires manual review'',
                      crm_id = Some (''PENDING-'' @ pending_digits rnd),
                      timestamp = Some now, submission_time = None,
                      processing_notes = None, retry_suggested = False \<rparr>
               else if double_less (random_unit rnd) (float_literal 0.9)
               then \<lparr> crm_status = ''accepted'', reason = None,
                      crm_id = Some (''CRM-'' @ crm_digits rnd),
                      timestamp = None, submission_time = Some now,
                      processing_notes =
                        Some ''Document successfully processed and entered into CRM'',
                      retry_suggested = False \<rparr>
               else \<lparr> crm_status = ''failed'',
                      reason = Some ''CRM system temporarily unavailable'',
                      crm_id = None, timestamp = Some now, submission_time = None,
                      processing_notes = None, retry_suggested = True \<rparr>))"

text \<open>
  The dictionary returned by \<open>submit_document\<close>: \<open>status\<close>, and either \<open>json_file\<close> and
  \<open>crm_response\<close> or \<open>error\<close> (the field \<open>submit_error\<close>).
\<close>

record submission_result =
  status :: string
  json_file :: "string option"
  crm_response :: "crm_response option"
  submit_error :: "string option"

text \<open>
  The body of the \<open>try\<close> of \<open>submit_document\<close>. Writing the JSON file is the call that can
  raise; the file system is the parameter \<open>write_json\<close>, which returns the name of the
  file written or the exception. \<open>_log_submission\<close> appends to the log file inside a
  handler of its own and has no part in the result.
\<close>

definition submit_attempt ::
  "(validated \<Rightarrow> py_exception + string) \<Rightarrow> random_draws \<Rightarrow> string \<Rightarrow> validated
     \<Rightarrow> py_exception + submission_result" where
  "submit_attempt write_json rnd now parsed_data =
     (case write_json parsed_data of
        Inl e \<Rightarrow> Inl e
      | Inr json_filename \<Rightarrow>
          (let submission = mock_crm_submit rnd now parsed_data
           in Inr \<lparr> status = ''success'', json_file = Some json_filename,
                    crm_response = Some submission, submit_error = None \<rparr>))"

text \<open>\<open>submit_document\<close>: the handler turns every exception of the body into a result.\<close>

definition submit_document ::
  "(validated \<Rightarrow> py_exception + string) \<Rightarrow> random_draws \<Rightarrow> string \<Rightarrow> validated
     \<Rightarrow> submission_result" where
  "submit_document write_json rnd now parsed_data =
     (case submit_attempt write_json rnd now parsed_data of
        Inr result \<Rightarrow> result
      | Inl e \<Rightarrow> \<lparr> status = ''failed'', json_file = None, crm_response = None,
                   submit_error = Some (message e) \<rparr>)"

text \<open>The four statuses that the specification allows for a submission outcome.\<close>

definition outcome_statuses :: "string list" where
  "outcome_statuses = [''accepted'', ''rejected'', ''pending_review'', ''failed'']"


section \<open>DocumentPipeline\<close>

text \<open>
  The four components that the pipeline object holds; each call may raise. The readings
  of the clock during the processing of one document (seconds, and the ISO text of the
  time at which a failure is recorded) are parameters.
\<close>

record pipeline =
  ocr_extract_text :: "string \<Rightarrow> py_exception + string"
  llm_parse_document :: "string \<Rightarrow> string option \<Rightarrow> py_exception + candidate"
  validator_validate_document :: "candidate \<Rightarrow> py_exception + validated"
  crm_submit_document :: "validated \<Rightarrow> py_exception + submission_result"

record clock_readings =
  start_time :: real
  end_time :: real
  failure_timestamp :: string

text \<open>
  The result dictionary of one document: the validated record with \<open>submission_result\<close>,
  or \<open>source_file\<close> (the field \<open>failed_file\<close>), \<open>error\<close> and \<open>processing_timestamp\<close>; in both
  cases \<open>processing_status\<close>. \<open>processing_time_seconds\<close> is absent from the entry that
  \<open>process_directory\<close> itself writes.
\<close>

record document_result =
  validated_data :: "validated option"
  submission :: "submission_result option"
  processing_status :: string
  processing_time_seconds :: "real option"
  failed_file :: "string option"
  error :: "string option"
  processing_timestamp :: "string option"

text \<open>\<open>os.path.basename\<close> and \<open>os.path.join\<close> on POSIX paths.\<close>

definition basename :: "string \<Rightarrow> string" where
  "basename path = rev (takeWhile (\<lambda>c. c \<noteq> CHR ''/'') (rev path))"

definition path_join :: "string \<Rightarrow> string \<Rightarrow> string" where
  "path_join dir name =
     (if dir = [] \<or> last dir = CHR ''/'' then dir @ name else dir @ ''/'' @ name)"

text \<open>The body of the \<open>try\<close> of \<open>process_single_document\<close>: the four stages in order.\<close>

definition process_stages :: "pipeline \<Rightarrow> string \<Rightarrow> py_exception + validated \<times> submission_result" where
  "process_stages p file_path =
     (let filename = basename file_path
      in case ocr_extract_text p file_path of
           Inl e \<Rightarrow> Inl e
         | Inr extracted_text \<Rightarrow>
             if py_strip extracted_text = []
             then Inl (PyException ''No text could be extracted from document'')
             else (case llm_parse_document p extracted_text (Some filename) of
                     Inl e \<Rightarrow> Inl e
                   | Inr parsed_data \<Rightarrow>
                   (case validator_validate_document p parsed_data of
                     Inl e \<Rightarrow> Inl e
                   | Inr validated \<Rightarrow>
                   (case crm_submit_document p validated of
                     Inl e \<Rightarrow> Inl e
                   | Inr submission_result \<Rightarrow> Inr (validated, submission_result)))))"

definition failed_result :: "string \<Rightarrow> py_exception \<Rightarrow> string \<Rightarrow> real option \<Rightarrow> document_result" where
  "failed_result filename e now elapsed =
     \<lparr> validated_data = None, submission = None, processing_status = ''failed'',
       processing_time_seconds = elapsed, failed_file = Some filename,
       error = Some (message e), processing_timestamp = Some now \<rparr>"

definition process_single_document :: "pipeline \<Rightarrow> clock_readings \<Rightarrow> string \<Rightarrow> document_result" where
  "process_single_document p clock file_path =
     (case process_stages p file_path of
        Inr (validated, submission_result) \<Rightarrow>
          \<lparr> validated_data = Some validated, submission = Some submission_result,
            processing_status = ''completed'',
            processing_time_seconds = Some (end_time clock - start_time clock),
            failed_file = None, error = None, processing_timestamp = None \<rparr>
      | Inl e \<Rightarrow>
          failed_result (basename file_path) e (failure_timestamp clock)
            (Some (end_time clock - start_time clock)))"

subsection \<open>The batch loops\<close>

text \<open>
  What an observer sees of a batch, in order: the calls of the progress callback with
  their three arguments, and the documents handed to \<open>process_single_document\<close>. The
  callback is a function that returns the exception it raises, if any.
\<close>

datatype event = ProgressCall nat nat string | DocumentStarted string

type_synonym progress_callback = "nat \<Rightarrow> nat \<Rightarrow> string \<Rightarrow> py_exception option"

text \<open>
  One round of the loop of \<open>process_directory\<close> for the pair \<open>(i, file_path)\<close> of
  \<open>enumerate(files)\<close>; \<open>clock i\<close> are the clock readings during round \<open>i\<close>.
\<close>

definition directory_step ::
  "pipeline \<Rightarrow> (nat \<Rightarrow> clock_readings) \<Rightarrow> progress_callback option \<Rightarrow> nat
     \<Rightarrow> event list \<times> document_result list \<Rightarrow> nat \<times> string
     \<Rightarrow> event list \<times> document_result list" where
  "directory_step p clock callback n_total acc entry =
     (case (acc, entry) of ((events, processed_documents), (i, file_path)) \<Rightarrow>
        (let progress_message = ''Processing '' @ basename file_path;
             events1 = (case callback of
                          None \<Rightarrow> events
                        | Some f \<Rightarrow> events @ [ProgressCall i n_total progress_message]);
             raised = (case callback of None \<Rightarrow> None | Some f \<Rightarrow> f i n_total progress_message)
         in case raised of
              Some e \<Rightarrow>
                (events1,
                 processed_documents
                   @ [failed_result (basename file_path) e (failure_timestamp (clock i)) None])
            | None \<Rightarrow>
                (events1 @ [DocumentStarted file_path],
                 processed_documents @ [process_single_document p (clock i) file_path])))"

definition process_files ::
  "pipeline \<Rightarrow> (nat \<Rightarrow> clock_readings) \<Rightarrow> progress_callback option \<Rightarrow> string list
     \<Rightarrow> event list \<times> document_result list" where
  "process_files p clock callback files =
     foldl (directory_step p clock callback (length files)) ([], []) (enumerate 0 files)"

definition supported_extensions :: "string list" where
  "supported_extensions = [''.pdf'', ''.png'', ''.jpg'', ''.jpeg'']"

definition endswith :: "string \<Rightarrow> string \<Rightarrow> bool" where
  "endswith s suffix = (length suffix \<le> length s \<and> drop (length s - length suffix) s = suffix)"

text \<open>
  \<open>process_directory\<close>. The directory is the parameter \<open>listing\<close>: \<open>None\<close> when it does
  not exist, and otherwise the names that \<open>os.listdir\<close> returns. Writing the CSV summary
  after the loop is guarded by a handler and does not change the result.
\<close>

definition process_directory ::
  "pipeline \<Rightarrow> (nat \<Rightarrow> clock_readings) \<Rightarrow> progress_callback option \<Rightarrow> string
     \<Rightarrow> string list option \<Rightarrow> py_exception + event list \<times> document_result list" where
  "process_directory p clock callback input_dir listing =
     (case listing of
        None \<Rightarrow> Inl (PyException (''Input directory not found: '' @ input_dir))
      | Some names \<Rightarrow>
          (let files = map (path_join input_dir)
                         (filter (\<lambda>f. list_ex (endswith (py_lower f)) supported_extensions) names)
           in if files = [] then Inr ([], [])
              else Inr (process_files p clock callback files)))"

text \<open>
  The loop of \<open>DocumentProcessorWorker.run\<close>: the signal \<open>progress_updated\<close> before each
  document, and the loop left after a document when an interruption has been requested
  by then (\<open>interrupted i\<close>: the request is seen after document \<open>i\<close>).
\<close>

fun worker_loop ::
  "pipeline \<Rightarrow> (nat \<Rightarrow> clock_readings) \<Rightarrow> (nat \<Rightarrow> bool) \<Rightarrow> nat \<Rightarrow> nat \<Rightarrow> string list
     \<Rightarrow> event list \<times> document_result list \<Rightarrow> event list \<times> document_result list" where
  "worker_loop p clock interrupted n_total i [] acc = acc"
| "worker_loop p clock interrupted n_total i (file_path # rest) (events, processed_documents) =
     (let events1 = events @ [ProgressCall i n_total (''Processing '' @ basename file_path),
                              DocumentStarted file_path];
          processed1 = processed_documents @ [process_single_document p (clock i) file_path]
      in if interrupted i then (events1, processed1)
         else worker_loop p clock interrupted n_total (Suc i) rest (events1, processed1))"

definition worker_run ::
  "pipeline \<Rightarrow> (nat \<Rightarrow> clock_readings) \<Rightarrow> (nat \<Rightarrow> bool) \<Rightarrow> string list
     \<Rightarrow> event list \<times> document_result list" where
  "worker_run p clock interrupted files =
     worker_loop p clock interrupted (length files) 0 files ([], [])"

text \<open>The arguments \<open>(current, total)\<close> of the progress calls of a batch, in order.\<close>

fun progress_args :: "event list \<Rightarrow> (nat \<times> nat) list" where
  "progress_args [] = []"
| "progress_args (ProgressCall i n_total msg # es) = (i, n_total) # progress_args es"
| "progress_args (DocumentStarted f # es) = progress_args es"

text \<open>
  The pipeline that \<open>DocumentPipeline.__init__\<close> builds from the components modelled
  above, given the collaborators: the OCR call, the completion backend, the clock reading
  used for timestamps, the file system and the random draws.
\<close>

definition document_pipeline ::
  "(string \<Rightarrow> py_exception + string) \<Rightarrow> generator \<Rightarrow> string
     \<Rightarrow> (validated \<Rightarrow> py_exception + string) \<Rightarrow> random_draws \<Rightarrow> pipeline" where
  "document_pipeline ocr gen now write_json rnd =
     \<lparr> ocr_extract_text = ocr,
       llm_parse_document = parse_document gen,
       validator_validate_document = (\<lambda>d. Inr (validate_document now d)),
       crm_submit_document = (\<lambda>v. Inr (submit_document write_json rnd now v)) \<rparr>"


section \<open>Definitions used in the statements\<close>

subsection \<open>The parser\<close>

text \<open>
  A group of paragraphs respects the budget when it has at most \<open>m\<close> words or is a
  single paragraph.
\<close>

definition within_budget :: "nat \<Rightarrow> string list \<Rightarrow> bool" where
  "within_budget m g = (word_count g \<le> m \<or> length g = 1)"

text \<open>
  What \<open>parse_document\<close> stores for a prompt key when no call raises: the cleaned text of
  the response, or the empty string for a response that is not a non-empty list.
\<close>

definition text_or :: "string \<Rightarrow> string option \<Rightarrow> string" where
  "text_or old v = (case v of Some s \<Rightarrow> s | None \<Rightarrow> old)"

definition completion_text :: "generator \<Rightarrow> string \<Rightarrow> string \<Rightarrow> string" where
  "completion_text gen chunk key =
     (case gen (get_field_prompt key chunk) of
        Inl e \<Rightarrow> ''''
      | Inr response \<Rightarrow> text_or '''' (response_text response))"

definition extracted_record :: "generator \<Rightarrow> string \<Rightarrow> string option \<Rightarrow> candidate" where
  "extracted_record gen chunk filename =
     \<lparr> merchant_name = completion_text gen chunk ''merchant_name'',
       ein_or_ssn = completion_text gen chunk ''ein_or_ssn'',
       document_type = completion_text gen chunk ''document_type'',
       address = \<lparr> street = completion_text gen chunk ''address_street'',
                   city = completion_text gen chunk ''address_city'',
                   state = completion_text gen chunk ''address_state'',
                   zip_field = completion_text gen chunk ''address_zip'' \<rparr>,
       contact_info = \<lparr> phone = completion_text gen chunk ''contact_phone'',
                        email = completion_text gen chunk ''contact_email'' \<rparr>,
       business_info = \<lparr> business_type = completion_text gen chunk ''business_type'',
                         annual_revenue = completion_text gen chunk ''annual_revenue'',
                         years_in_business = completion_text gen chunk ''years_in_business'',
                         processing_volume = completion_text gen chunk ''processing_volume'' \<rparr>,
       requested_amount = completion_text gen chunk ''requested_amount'',
       source_file = source_file (structured_data filename),
       confidence_score = Some (float_literal 0.7),
       flagged_issues = [] \<rparr>"

text \<open>
  Example inputs: a text of three paragraphs, a backend that fails on the EIN prompt only,
  and a backend that never fails but answers only the prompts that begin with "Extract".
\<close>

definition three_paragraphs :: string where
  "three_paragraphs = ''a b'' @ blank_line @ ''c d e'' @ blank_line @ ''f''"

text \<open>A text of one paragraph of 513 words.\<close>

definition long_paragraph :: string where
  "long_paragraph = concat (replicate 513 ''w '')"

definition ein_failing_generator :: generator where
  "ein_failing_generator prompt =
     (if take 15 prompt = ''Find the tax ID'' then Inl (PyException ''backend unavailable'')
      else Inr (ResponseList [GeneratedText ''Answer: Acme'']))"

definition sparse_generator :: generator where
  "sparse_generator prompt =
     (if take 7 prompt = ''Extract'' then Inr (ResponseList [GeneratedText ''Answer: Acme''])
      else if take 4 prompt = ''Find'' then Inr (ResponseList [])
      else Inr NotAList)"


subsection \<open>The batch\<close>

text \<open>
  What one round of the loop of \<open>process_directory\<close> adds to the observed events and to
  the results, as functions of the pair \<open>(i, file_path)\<close>.
\<close>

definition step_events :: "progress_callback option \<Rightarrow> nat \<Rightarrow> nat \<times> string \<Rightarrow> event list" where
  "step_events callback n_total entry =
     (case entry of (i, file_path) \<Rightarrow>
        (case callback of
           None \<Rightarrow> [DocumentStarted file_path]
         | Some f \<Rightarrow>
             ProgressCall i n_total (''Processing '' @ basename file_path)
               # (case f i n_total (''Processing '' @ basename file_path) of
                    None \<Rightarrow> [DocumentStarted file_path]
                  | Some e \<Rightarrow> [])))"

definition step_result ::
  "pipeline \<Rightarrow> (nat \<Rightarrow> clock_readings) \<Rightarrow> progress_callback option \<Rightarrow> nat \<Rightarrow> nat \<times> string
     \<Rightarrow> document_result" where
  "step_result p clock callback n_total entry =
     (case entry of (i, file_path) \<Rightarrow>
        (case callback of
           None \<Rightarrow> process_single_document p (clock i) file_path
         | Some f \<Rightarrow>
             (case f i n_total (''Processing '' @ basename file_path) of
                None \<Rightarrow> process_single_document p (clock i) file_path
              | Some e \<Rightarrow>
                  failed_result (basename file_path) e (failure_timestamp (clock i)) None)))"

text \<open>
  The number of rounds that the worker loop runs over \<open>k\<close> remaining files from index
  \<open>i\<close>: it stops after the first document at which an interruption is seen.
\<close>

fun rounds :: "(nat \<Rightarrow> bool) \<Rightarrow> nat \<Rightarrow> nat \<Rightarrow> nat" where
  "rounds interrupted i 0 = 0"
| "rounds interrupted i (Suc k) =
     (if interrupted i then 1 else Suc (rounds interrupted (Suc i) k))"

text \<open>
  Example collaborators: a file system that writes and one that is full, random draws, an
  OCR call that fails on one file and reads only blanks from another, a clock that gives
  every document two and a half seconds, three input files, a callback that never raises,
  and components that raise.
\<close>

definition written_json :: "validated \<Rightarrow> py_exception + string" where
  "written_json v = Inr (''output/'' @ v_source_file v @ ''.json'')"

definition disk_full :: "validated \<Rightarrow> py_exception + string" where
  "disk_full v = Inl (PyException ''No space left on device'')"

definition lucky_draws :: random_draws where
  "lucky_draws =
     \<lparr> random_unit = float_literal 0.5, pending_digits = ''12345'', crm_digits = ''123456'' \<rparr>"

definition sample_ocr :: "string \<Rightarrow> py_exception + string" where
  "sample_ocr path =
     (if path = ''in/b.pdf'' then Inl (PyException ''cannot identify image file'')
      else if path = ''in/c.png'' then Inr ''   ''
      else Inr ''Acme Corp'')"

definition sample_pipeline :: pipeline where
  "sample_pipeline = document_pipeline sample_ocr sparse_generator ''t'' written_json lucky_draws"

definition sample_clock :: "nat \<Rightarrow> clock_readings" where
  "sample_clock i = \<lparr> start_time = 10 * real i, end_time = 10 * real i + 2.5,
                      failure_timestamp = ''t'' \<rparr>"

definition three_files :: "string list" where
  "three_files = [''in/a.pdf'', ''in/b.pdf'', ''in/c.png'']"

definition quiet_callback :: progress_callback where
  "quiet_callback i n_total msg = None"

definition raising_validator :: "candidate \<Rightarrow> py_exception + validated" where
  "raising_validator d = Inl (PyException ''validator crashed'')"

definition working_validator :: "candidate \<Rightarrow> py_exception + validated" where
  "working_validator d = Inr (validate_document ''t'' d)"

definition raising_submitter :: "validated \<Rightarrow> py_exception + submission_result" where
  "raising_submitter v = Inl (PyException ''connection reset'')"

definition stub_pipeline ::
  "(candidate \<Rightarrow> py_exception + validated) \<Rightarrow> (validated \<Rightarrow> py_exception + submission_result)
     \<Rightarrow> pipeline" where
  "stub_pipeline validate submit =
     \<lparr> ocr_extract_text = (\<lambda>path. Inr ''Acme Corp''),
       llm_parse_document = (\<lambda>extracted_text filename. Inr (clean_record [])),
       validator_validate_document = validate,
       crm_submit_document = submit \<rparr>"


section \<open>Properties of the floating-point model\<close>

text \<open>
  A rounding is evaluated from the exponent of its argument and the rounded significand.
\<close>

lemma round_double_eval:
  assumes "0 < x" and "binary_exponent x = k"
    and "round_half_even (x / 2 powi (k - 52)) = m"
    and "of_int m * 2 powi (k - 52) < (2::real) powi 1024"
  shows "round_double x = Finite (of_int m * 2 powi (k - 52))"
  using assms by (simp add: round_double_def Let_def)

lemmas rounding_defs = binary_exponent_def exponent_down.simps exponent_up.simps
  round_half_even_def Let_def

text \<open>The doubles that the literals of the source denote.\<close>

lemma float_literal_tenth:
  "float_literal (1 / 10) = Finite (3602879701896397 / 36028797018963968)"
  using round_double_eval [of "1 / 10" "- 4" 7205759403792794]
  by (simp add: float_literal_def rounding_defs)

lemma float_literal_fifth:
  "float_literal (1 / 5) = Finite (3602879701896397 / 18014398509481984)"
  using round_double_eval [of "1 / 5" "- 3" 7205759403792794]
  by (simp add: float_literal_def rounding_defs)

lemma float_literal_three_tenths:
  "float_literal (3 / 10) = Finite (5404319552844595 / 18014398509481984)"
  using round_double_eval [of "3 / 10" "- 2" 5404319552844595]
  by (simp add: float_literal_def rounding_defs)

lemma float_literal_two_fifths:
  "float_literal (2 / 5) = Finite (3602879701896397 / 9007199254740992)"
  using round_double_eval [of "2 / 5" "- 2" 7205759403792794]
  by (simp add: float_literal_def rounding_defs)

lemma float_literal_half: "float_literal (1 / 2) = Finite (1 / 2)"
  using round_double_eval [of "1 / 2" "- 1" 4503599627370496]
  by (simp add: float_literal_def rounding_defs)

lemma float_literal_seven_tenths:
  "float_literal (7 / 10) = Finite (3152519739159347 / 4503599627370496)"
  using round_double_eval [of "7 / 10" "- 1" 6305039478318694]
  by (simp add: float_literal_def rounding_defs)

lemma float_literal_nine_tenths:
  "float_literal (9 / 10) = Finite (8106479329266893 / 9007199254740992)"
  using round_double_eval [of "9 / 10" "- 1" 8106479329266893]
  by (simp add: float_literal_def rounding_defs)

lemma float_literal_ten_and_tenth:
  "float_literal (101 / 10) = Finite (5685794529555251 / 562949953421312)"
  using round_double_eval [of "101 / 10" 3 5685794529555251]
  by (simp add: float_literal_def rounding_defs)

lemmas float_literal_values =
  float_literal_tenth float_literal_fifth float_literal_three_tenths float_literal_two_fifths
  float_literal_half float_literal_seven_tenths float_literal_nine_tenths
  float_literal_ten_and_tenth

lemma double_of_nat_values:
  "double_of_nat (Suc 0) = Finite 1" "double_of_nat 2 = Finite 2" "double_of_nat 3 = Finite 3"
  using round_double_eval [of 1 0 4503599627370496]
        round_double_eval [of 2 1 4503599627370496]
        round_double_eval [of 3 1 6755399441055744]
  by (simp_all add: double_of_nat_def rounding_defs)

text \<open>
  The roundings behind the products \<open>0.2 * 1\<close>, \<open>0.2 * 2\<close> and \<open>0.2 * 3\<close> and behind the
  differences \<open>0.7 - 0.4\<close>, \<open>0.7 - 0.2\<close>, \<open>10.1 - 0.4\<close> and \<open>10.1 - 9.7\<close>.
\<close>

lemma round_double_values:
  "round_double (3602879701896397 / 18014398509481984)
     = Finite (3602879701896397 / 18014398509481984)"
  "round_double (3602879701896397 / 9007199254740992)
     = Finite (3602879701896397 / 9007199254740992)"
  "round_double (10808639105689191 / 18014398509481984)
     = Finite (1351079888211149 / 2251799813685248)"
  "round_double (2702159776422297 / 9007199254740992)
     = Finite (2702159776422297 / 9007199254740992)"
  "round_double (9007199254740991 / 18014398509481984)
     = Finite (9007199254740991 / 18014398509481984)"
  "round_double (87369832770987619 / 9007199254740992)
     = Finite (2730307274093363 / 281474976710656)"
  "round_double (225179981368525 / 562949953421312)
     = Finite (225179981368525 / 562949953421312)"
  using round_double_eval [of "3602879701896397 / 18014398509481984" "- 3" 7205759403792794]
        round_double_eval [of "3602879701896397 / 9007199254740992" "- 2" 7205759403792794]
        round_double_eval [of "10808639105689191 / 18014398509481984" "- 1" 5404319552844596]
        round_double_eval [of "2702159776422297 / 9007199254740992" "- 2" 5404319552844594]
        round_double_eval [of "9007199254740991 / 18014398509481984" "- 2" 9007199254740991]
        round_double_eval [of "87369832770987619 / 9007199254740992" 3 5460614548186726]
        round_double_eval [of "225179981368525 / 562949953421312" "- 2" 7205759403792800]
  by (simp_all add: rounding_defs)

text \<open>
  Rounding does not go below a power of two that the argument has reached: the search
  for the exponent ends in the binade of the argument, and the significand of a number
  of that binade is at least \<open>2 ^ 52\<close>.
\<close>

lemma exponent_up_bounds:
  "k \<le> 1023 \<Longrightarrow> 2 powi k \<le> a \<Longrightarrow>
     2 powi (exponent_up k a) \<le> a
     \<and> (exponent_up k a = 1023 \<or> a < 2 powi (exponent_up k a + 1))"
proof (induction k a rule: exponent_up.induct)
  case (1 k a)
  show ?case
  proof (cases "k < 1023 \<and> 2 powi (k + 1) \<le> a")
    case True
    then show ?thesis using 1 by (subst (1 2 3) exponent_up.simps) simp
  next
    case False
    then show ?thesis using 1 by (subst (1 2 3) exponent_up.simps) auto
  qed
qed

lemma exponent_down_bounds:
  "- 1022 \<le> k \<Longrightarrow> a < 2 powi (k + 1) \<Longrightarrow>
     - 1022 \<le> exponent_down k a \<and> a < 2 powi (exponent_down k a + 1)
     \<and> (2 powi (exponent_down k a) \<le> a \<or> exponent_down k a = - 1022)"
proof (induction k a rule: exponent_down.induct)
  case (1 k a)
  show ?case
  proof (cases "- 1022 < k \<and> a < 2 powi k")
    case True
    then show ?thesis using 1 by (subst (1 2 3 4) exponent_down.simps) simp
  next
    case False
    then show ?thesis using 1 by (subst (1 2 3 4) exponent_down.simps) auto
  qed
qed

lemma power_two_less_exponent:
  fixes a :: real
  assumes "2 powi j \<le> a" and "a < 2 powi (r + 1)"
  shows "j \<le> r"
proof (rule ccontr)
  assume "\<not> j \<le> r"
  then have "r + 1 \<le> j" by simp
  then have "(2::real) powi (r + 1) \<le> 2 powi j" by (intro power_int_increasing) simp_all
  with assms show False by simp
qed

lemma binary_exponent_lower:
  assumes "2 powi j \<le> a" and "- 1022 \<le> j" and "j \<le> 1023"
  shows "j \<le> binary_exponent a \<and> 2 powi (binary_exponent a) \<le> a"
proof (cases "1 \<le> a")
  case True
  then have up: "2 powi (exponent_up 0 a) \<le> a
      \<and> (exponent_up 0 a = 1023 \<or> a < 2 powi (exponent_up 0 a + 1))"
    using exponent_up_bounds [of 0 a] by simp
  then have "j \<le> exponent_up 0 a"
    using assms power_two_less_exponent [of j a "exponent_up 0 a"] by auto
  with up True show ?thesis by (simp add: binary_exponent_def)
next
  case False
  then have down: "- 1022 \<le> exponent_down (- 1) a \<and> a < 2 powi (exponent_down (- 1) a + 1)
      \<and> (2 powi (exponent_down (- 1) a) \<le> a \<or> exponent_down (- 1) a = - 1022)"
    using exponent_down_bounds [of "- 1" a] by simp
  then have le: "j \<le> exponent_down (- 1) a"
    using assms power_two_less_exponent [of j a "exponent_down (- 1) a"] by simp
  have "2 powi (exponent_down (- 1) a) \<le> a"
  proof (cases "exponent_down (- 1) a = - 1022")
    case True
    with le assms have "j = - 1022" by simp
    with True assms show ?thesis by simp
  next
    case False
    with down show ?thesis by simp
  qed
  with le False show ?thesis by (simp add: binary_exponent_def)
qed

lemma round_half_even_lower: "of_int n \<le> r \<Longrightarrow> n \<le> round_half_even r"
proof -
  assume "of_int n \<le> r"
  then have "n \<le> \<lfloor>r\<rfloor>" by (simp add: le_floor_iff)
  then show ?thesis by (simp add: round_half_even_def Let_def)
qed

lemma round_double_lower:
  assumes "2 powi j \<le> x" and "- 1022 \<le> j" and "j \<le> 1023"
  shows "round_double x = PosInf \<or> (\<exists>y. round_double x = Finite y \<and> 2 powi j \<le> y)"
proof -
  define k where "k = binary_exponent x"
  define m where "m = round_half_even (x / 2 powi (k - 52))"
  have pos: "0 < x"
  proof -
    have "0 < (2::real) powi j" by simp
    with assms(1) show ?thesis by linarith
  qed
  have k: "j \<le> k" "2 powi k \<le> x"
    using binary_exponent_lower [OF assms] by (simp_all add: k_def)
  have "(2::real) powi k / 2 powi (k - 52) = 2 powi 52"
    by (simp add: power_int_diff)
  then have "(2::real) powi 52 \<le> x / 2 powi (k - 52)"
    using k(2) divide_right_mono [of "2 powi k" x "2 powi (k - 52)"] by simp
  then have "of_int (2 ^ 52) \<le> x / 2 powi (k - 52)" by simp
  then have "2 ^ 52 \<le> m"
    unfolding m_def by (rule round_half_even_lower)
  then have c: "(2::real) powi 52 \<le> of_int m"
    by (metis of_int_le_iff of_int_numeral of_int_power power_int_numeral numeral_One)
  define p where "p = (2::real) powi (k - 52)"
  have p_pos: "0 < p" by (simp add: p_def)
  have pk: "2 powi 52 * p = 2 powi k"
    unfolding p_def using power_int_add [of "2::real" 52 "k - 52"] by simp
  have "2 powi k \<le> of_int m * (2::real) powi (k - 52)"
    unfolding pk [symmetric] p_def [symmetric]
    by (rule mult_right_mono [OF c less_imp_le [OF p_pos]])
  moreover have "(2::real) powi j \<le> 2 powi k"
    using k(1) by (intro power_int_increasing) simp_all
  ultimately have y: "2 powi j \<le> of_int m * (2::real) powi (k - 52)" by simp
  show ?thesis
    using pos y by (simp add: round_double_def Let_def k_def m_def)
qed

lemma round_double_not_NaN: "round_double x \<noteq> NaN"
  by (simp add: round_double_def Let_def)

lemma double_of_nat_lower:
  assumes "4 \<le> n"
  shows "double_of_nat n = PosInf \<or> (\<exists>y. double_of_nat n = Finite y \<and> 4 \<le> y)"
proof -
  have "(2::real) powi 2 \<le> of_nat n" using assms by simp
  from round_double_lower [OF this] show ?thesis by (simp add: double_of_nat_def)
qed

text \<open>
  The penalty \<open>min(0.2 * n, 0.4)\<close> for \<open>n\<close> issues: the double 0.2 for one issue and the
  double 0.4 for two or more. (\<open>0.2 * 2\<close> is the double 0.4 exactly, \<open>0.2 * 3\<close> is
  0.6000000000000001, and from four issues on the product is at least one half.)
\<close>

lemma capped_penalty:
  assumes "1 \<le> n"
  shows "py_min (double_mul (float_literal (1 / 5)) (double_of_nat n)) (float_literal (2 / 5))
           = (if n = 1 then float_literal (1 / 5) else float_literal (2 / 5))"
proof -
  consider "n = 1" | "n = 2" | "n = 3" | "4 \<le> n" using assms by linarith
  then show ?thesis
  proof cases
    case 1
    then show ?thesis
      by (simp add: float_literal_values double_of_nat_values round_double_values py_min_def)
  next
    case 2
    then show ?thesis
      by (simp add: float_literal_values double_of_nat_values round_double_values py_min_def)
  next
    case 3
    then show ?thesis
      by (simp add: float_literal_values double_of_nat_values round_double_values py_min_def)
  next
    case 4
    from double_of_nat_lower [OF 4] show ?thesis
    proof (elim disjE exE conjE)
      assume "double_of_nat n = PosInf"
      with 4 show ?thesis
        by (simp add: float_literal_values py_min_def signed_inf_def)
    next
      fix y assume y: "double_of_nat n = Finite y" "4 \<le> y"
      then have "(2::real) powi (- 1) \<le> 3602879701896397 / 18014398509481984 * y" by simp
      from round_double_lower [OF this]
      have "round_double (3602879701896397 / 18014398509481984 * y) = PosInf
          \<or> (\<exists>z. round_double (3602879701896397 / 18014398509481984 * y) = Finite z
                 \<and> 1 / 2 \<le> z)"
        by simp
      with 4 y(1) show ?thesis
        by (auto simp add: float_literal_values py_min_def)
    qed
  qed
qed

lemma double_sub_not_NaN: "c \<noteq> NaN \<Longrightarrow> double_sub c (Finite p) \<noteq> NaN"
  by (cases c) (simp_all add: round_double_not_NaN)

lemma py_max_floor:
  "s \<noteq> NaN \<Longrightarrow>
     py_max s (Finite q) \<noteq> NaN \<and> \<not> double_less (py_max s (Finite q)) (Finite q)"
  by (cases s) (simp_all add: py_max_def)

lemma py_max_NaN: "py_max NaN b = NaN"
  by (simp add: py_max_def)


section \<open>Properties of the validator\<close>

lemmas string_defs =
  is_space_def whitespace_chars_def is_digit_def is_lower_def is_upper_def is_alpha_def
  py_strip_def upper_char_def lower_char_def py_upper_def py_lower_def py_isdigit_def
  py_split_def py_split_ws_def sub_whitespace_def quoted_def

lemmas validator_defs =
  validate_ein_ssn_def validate_zip_def float_parses_def validate_amount_def
  validate_phone_def email_local_char_def email_domain_char_def match_email_pattern_def
  validate_email_def valid_states_def validate_state_def required_fields_def
  address_values_def validation_issues_def get_confidence_score_def

lemma five_issue_record_issues:
  "validation_issues (five_issue_record c) =
     [''Invalid EIN/SSN format: '' @ quoted ''12345'' @ '' (must be exactly 9 digits)'',
      ''Invalid ZIP code: '' @ quoted ''1234'' @ '' (must be exactly 5 digits)'',
      ''Invalid state: '' @ quoted ''ZZ'' @ '' (must be 2-letter abbreviation)'',
      ''Missing required field: merchant_name'',
      ''Missing required field: document_type'',
      ''Incomplete address information'']"
  by (simp add: five_issue_record_def validator_defs string_defs)

lemma clean_record_issues: "validation_issues (clean_record issues) = []"
  by (simp add: clean_record_def validator_defs string_defs)

text \<open>
  C2 (amended). \<open>validation_status\<close> is \<open>failed\<close> exactly when this pass raised an issue
  of its own; the returned \<open>flagged_issues\<close> are the issues the record carried followed by
  the new ones, and \<open>requires_human_review\<close> says whether that list is non-empty. So a
  failed record always has issues, and for a record that carried none the status is
  \<open>failed\<close> exactly when the returned list is non-empty.
\<close>

theorem validate_status_review_invariant:
  "(validation_status (validate_document now r) = ''failed'') = (validation_issues r \<noteq> [])
   \<and> v_flagged_issues (validate_document now r) = flagged_issues r @ validation_issues r
   \<and> requires_human_review (validate_document now r)
       = (length (v_flagged_issues (validate_document now r)) > 0)
   \<and> (validation_status (validate_document now r) = ''failed''
        \<longrightarrow> v_flagged_issues (validate_document now r) \<noteq> [])
   \<and> (flagged_issues r = [] \<longrightarrow>
        (validation_status (validate_document now r) = ''failed'')
          = (v_flagged_issues (validate_document now r) \<noteq> []))"
  by (simp add: validate_document_def Let_def)

theorem validate_status_review_invariant_witness:
  "flagged_issues (five_issue_record (float_literal 0.7)) = []
   \<and> validation_status (validate_document ''t'' (five_issue_record (float_literal 0.7))) = ''failed''
   \<and> v_flagged_issues (validate_document ''t'' (five_issue_record (float_literal 0.7))) \<noteq> []
   \<and> requires_human_review (validate_document ''t'' (five_issue_record (float_literal 0.7)))"
  using validate_status_review_invariant [of "''t''" "five_issue_record (float_literal 0.7)"]
  by (simp add: five_issue_record_issues) (simp add: five_issue_record_def)

text \<open>
  The invariant as the specification words it fails for a record that passes every rule
  but carries an issue from the extraction stage: it is returned \<open>passed\<close> with a
  non-empty issue list.
\<close>

theorem validate_status_not_iff_flagged:
  "\<not> (validation_status (validate_document ''t'' (clean_record [''low OCR quality''])) = ''failed''
       \<longleftrightarrow> v_flagged_issues (validate_document ''t'' (clean_record [''low OCR quality''])) \<noteq> [])"
  by (simp add: validate_document_def clean_record_issues Let_def) (simp add: clean_record_def)

text \<open>
  C4 (amended). On the record of the example the validator raises six issues, not five:
  the five of the specification in the order of the rule table, and after them
  "Incomplete address information", because state and ZIP code are filled in while street
  and city are empty. The record fails, and its confidence \<open>c\<close> becomes
  \<open>max(c - 0.4, 0.1)\<close>, computed in floats.
\<close>

theorem five_issue_example_six:
  "validation_issues (five_issue_record c) =
     [''Invalid EIN/SSN format: '' @ quoted ''12345'' @ '' (must be exactly 9 digits)'',
      ''Invalid ZIP code: '' @ quoted ''1234'' @ '' (must be exactly 5 digits)'',
      ''Invalid state: '' @ quoted ''ZZ'' @ '' (must be 2-letter abbreviation)'',
      ''Missing required field: merchant_name'',
      ''Missing required field: document_type'',
      ''Incomplete address information'']
   \<and> v_flagged_issues (validate_document now (five_issue_record c))
       = validation_issues (five_issue_record c)
   \<and> validation_status (validate_document now (five_issue_record c)) = ''failed''
   \<and> v_confidence_score (validate_document now (five_issue_record c))
       = Some (py_max (double_sub c (float_literal 0.4)) (float_literal 0.1))"
  by (simp add: validate_document_def Let_def five_issue_record_issues get_confidence_score_def
        capped_penalty)
     (simp add: five_issue_record_def)

theorem five_issue_example_not_five:
  "length (validation_issues (five_issue_record (float_literal 0.7))) \<noteq> 5"
  by (simp add: five_issue_record_issues)

lemma validate_document_confidence:
  "v_confidence_score (validate_document now r) =
     (if validation_issues r \<noteq> []
      then Some (py_max (double_sub (get_confidence_score (confidence_score r))
                           (py_min (double_mul (float_literal 0.2)
                                       (double_of_nat (length (validation_issues r))))
                                   (float_literal 0.4)))
                        (float_literal 0.1))
      else confidence_score r)"
  by (simp add: validate_document_def Let_def)

text \<open>
  C6 (amended). When the pass raises \<open>n \<ge> 1\<close> issues, the returned confidence is the
  float expression \<open>max(c - min(0.2 * n, 0.4), 0.1)\<close>, where \<open>c\<close> is the confidence read
  from the input. The penalty \<open>min(0.2 * n, 0.4)\<close> is the double 0.2 for one issue and
  the double 0.4 for two or more, so it is never above the double 0.4. When \<open>c\<close> is not a
  NaN the result is not a NaN and is not below the double 0.1; when \<open>c\<close> is a NaN the
  result is a NaN. When the pass raises no issue the confidence is left as it was.
  The difference \<open>c - penalty\<close> is rounded: the result may lie more than 0.4 below \<open>c\<close>.
\<close>

theorem confidence_penalty:
  "(1 \<le> length (validation_issues r) \<longrightarrow>
      v_confidence_score (validate_document now r)
        = Some (py_max (double_sub (get_confidence_score (confidence_score r))
                          (py_min (double_mul (float_literal 0.2)
                                      (double_of_nat (length (validation_issues r))))
                                  (float_literal 0.4)))
                       (float_literal 0.1))
      \<and> py_min (double_mul (float_literal 0.2) (double_of_nat (length (validation_issues r))))
               (float_literal 0.4)
          = (if length (validation_issues r) = 1 then float_literal 0.2 else float_literal 0.4)
      \<and> \<not> double_less (float_literal 0.4)
            (py_min (double_mul (float_literal 0.2)
                        (double_of_nat (length (validation_issues r))))
                    (float_literal 0.4))
      \<and> (get_confidence_score (confidence_score r) \<noteq> NaN \<longrightarrow>
           get_confidence_score (v_confidence_score (validate_document now r)) \<noteq> NaN
           \<and> \<not> double_less (get_confidence_score (v_confidence_score (validate_document now r)))
                 (float_literal 0.1))
      \<and> (get_confidence_score (confidence_score r) = NaN \<longrightarrow>
           v_confidence_score (validate_document now r) = Some NaN))
   \<and> (length (validation_issues r) = 0 \<longrightarrow>
        v_confidence_score (validate_document now r) = confidence_score r)"
proof (cases "validation_issues r = []")
  case True
  then show ?thesis by (simp add: validate_document_confidence)
next
  case False
  define c where "c = get_confidence_score (confidence_score r)"
  define penalty where
    "penalty = py_min (double_mul (float_literal 0.2)
                          (double_of_nat (length (validation_issues r))))
                      (float_literal 0.4)"
  define floor_value :: real where "floor_value = 3602879701896397 / 36028797018963968"
  from False have n: "1 \<le> length (validation_issues r)"
    by (cases "validation_issues r") simp_all
  have penalty:
    "penalty = (if length (validation_issues r) = 1 then float_literal 0.2 else float_literal 0.4)"
    using capped_penalty [OF n] by (simp add: penalty_def)
  have "\<exists>p. penalty = Finite p \<and> p \<le> 3602879701896397 / 9007199254740992"
  proof (cases "length (validation_issues r) = 1")
    case True
    with penalty have "penalty = Finite (3602879701896397 / 18014398509481984)"
      by (simp add: float_literal_values)
    then show ?thesis
      by (intro exI [of _ "3602879701896397 / 18014398509481984"]) simp
  next
    case False
    with penalty have "penalty = Finite (3602879701896397 / 9007199254740992)"
      by (simp add: float_literal_values)
    then show ?thesis
      by (intro exI [of _ "3602879701896397 / 9007199254740992"]) simp
  qed
  then obtain p where p: "penalty = Finite p" "p \<le> 3602879701896397 / 9007199254740992"
    by blast
  have floor_value: "float_literal 0.1 = Finite floor_value"
    by (simp add: float_literal_values floor_value_def)
  have result: "v_confidence_score (validate_document now r)
      = Some (py_max (double_sub c penalty) (float_literal 0.1))"
    using False by (simp add: validate_document_confidence c_def penalty_def)
  have cap: "\<not> double_less (float_literal 0.4) penalty"
    using p by (simp add: float_literal_values)
  have finite: "c \<noteq> NaN \<longrightarrow>
      py_max (double_sub c penalty) (float_literal 0.1) \<noteq> NaN
      \<and> \<not> double_less (py_max (double_sub c penalty) (float_literal 0.1)) (float_literal 0.1)"
    using double_sub_not_NaN [of c p] py_max_floor [of "double_sub c (Finite p)" floor_value]
    by (simp only: p floor_value) blast
  have nan: "c = NaN \<longrightarrow> py_max (double_sub c penalty) (float_literal 0.1) = NaN"
    by (simp add: p py_max_NaN)
  have get: "get_confidence_score (Some x) = x" for x
    by (simp add: get_confidence_score_def)
  show ?thesis
    using n False penalty cap finite nan
    unfolding result get c_def [symmetric] penalty_def [symmetric]
    by simp
qed

lemma nameless_record_issues:
  "validation_issues ((clean_record issues)\<lparr>merchant_name := ''''\<rparr>)
     = [''Missing required field: merchant_name'']"
  by (simp add: clean_record_def validator_defs string_defs)

text \<open>
  At the confidence 0.7 that the extractor writes, six issues give 0.29999999999999993
  (the double \<open>2702159776422297 / 2 ^ 53\<close>), not 0.3, and one issue gives
  0.49999999999999994 (the double \<open>9007199254740991 / 2 ^ 54\<close>); a NaN stays a NaN; the
  record without issues keeps its 0.7.
\<close>

theorem confidence_penalty_witness:
  "1 \<le> length (validation_issues (five_issue_record (float_literal 0.7)))
   \<and> v_confidence_score (validate_document ''t'' (five_issue_record (float_literal 0.7)))
       = Some (Finite (2702159776422297 / 9007199254740992))
   \<and> \<not> double_less (Finite (2702159776422297 / 9007199254740992)) (float_literal 0.1)
   \<and> length (validation_issues ((clean_record [])\<lparr>merchant_name := ''''\<rparr>)) = 1
   \<and> v_confidence_score (validate_document ''t'' ((clean_record [])\<lparr>merchant_name := ''''\<rparr>))
       = Some (Finite (9007199254740991 / 18014398509481984))
   \<and> v_confidence_score (validate_document ''t'' (five_issue_record NaN)) = Some NaN
   \<and> length (validation_issues (clean_record [])) = 0
   \<and> v_confidence_score (validate_document ''t'' (clean_record [])) = Some (float_literal 0.7)"
  using confidence_penalty [of "five_issue_record (float_literal 0.7)" "''t''"]
        confidence_penalty [of "(clean_record [])\<lparr>merchant_name := ''''\<rparr>" "''t''"]
        confidence_penalty [of "five_issue_record NaN" "''t''"]
        confidence_penalty [of "clean_record []" "''t''"]
  by (simp add: five_issue_record_issues clean_record_issues nameless_record_issues)
     (simp add: five_issue_record_def clean_record_def get_confidence_score_def
        float_literal_values round_double_values py_max_def)

text \<open>
  The bound of 0.4 on the reduction fails in floating-point arithmetic. A record with
  confidence 10.1 on which the pass raises issues comes back with
  \<open>10.1 - 0.4 = 9.7\<close>, the double \<open>2730307274093363 / 2 ^ 48\<close>, and that lies
  0.40000000000000036 below the double 10.1: more than 0.4, whether the difference is
  taken in floats or exactly.
\<close>

theorem confidence_reduction_above_cap:
  "1 \<le> length (validation_issues (five_issue_record (float_literal 10.1)))
   \<and> float_literal 10.1 = Finite (5685794529555251 / 562949953421312)
   \<and> v_confidence_score (validate_document ''t'' (five_issue_record (float_literal 10.1)))
       = Some (Finite (2730307274093363 / 281474976710656))
   \<and> double_sub (float_literal 10.1) (Finite (2730307274093363 / 281474976710656))
       = Finite (225179981368525 / 562949953421312)
   \<and> double_less (float_literal 0.4) (Finite (225179981368525 / 562949953421312))
   \<and> (0.4 :: real) < 5685794529555251 / 562949953421312 - 2730307274093363 / 281474976710656"
  by (simp add: validate_document_confidence five_issue_record_issues capped_penalty)
     (simp add: five_issue_record_def get_confidence_score_def float_literal_values
        round_double_values py_max_def)

text \<open>
  C10. Two calls of \<open>validate_document\<close> on equal records return the same issues in the
  same order and the same confidence, whatever the clock reads at either call: the two
  results differ in \<open>validation_timestamp\<close> at most.
\<close>

theorem validate_deterministic:
  "v_flagged_issues (validate_document now1 r) = v_flagged_issues (validate_document now2 r)
   \<and> v_confidence_score (validate_document now1 r) = v_confidence_score (validate_document now2 r)
   \<and> validate_document now1 r = (validate_document now2 r)\<lparr>validation_timestamp := now1\<rparr>"
  by (simp add: validate_document_def Let_def)

section \<open>Properties of the parser\<close>

subsection \<open>Cleaning a completion\<close>

lemma py_split_aux_nonempty: "py_split_aux d cur xs \<noteq> []"
  by (induction xs arbitrary: cur) auto

lemma takeWhile_rev_absent:
  assumes "s \<notin> set xs"
  shows "rev (takeWhile (\<lambda>c. c \<noteq> s) (rev xs)) = xs"
proof -
  have "takeWhile (\<lambda>c. c \<noteq> s) (rev xs) = rev xs"
    using assms by auto
  then show ?thesis by (metis rev_rev_ident)
qed

lemma last_py_split_aux_char:
  "last (py_split_aux [s] cur xs) =
     (if s \<in> set xs then rev (takeWhile (\<lambda>c. c \<noteq> s) (rev xs)) else rev cur @ xs)"
proof (induction xs arbitrary: cur)
  case Nil
  then show ?case by simp
next
  case (Cons c cs)
  show ?case
  proof (cases "c = s")
    case True
    then show ?thesis
      using Cons.IH [of "[]"] py_split_aux_nonempty [of "[s]" "[]" cs]
      by (auto simp add: takeWhile_tail takeWhile_rev_absent simp del: takeWhile_eq_all_conv)
  next
    case False
    then show ?thesis
      using Cons.IH [of "c # cur"] by (auto simp add: takeWhile_tail)
  qed
qed

lemma set_collapse_ws: "set (collapse_ws b s) \<subseteq> insert (CHR '' '') (set s)"
  by (induction b s rule: collapse_ws.induct) auto

lemma set_py_strip: "set (py_strip s) \<subseteq> set s"
proof
  fix x assume "x \<in> set (py_strip s)"
  then have "x \<in> set (dropWhile is_space (rev (dropWhile is_space s)))"
    by (simp add: py_strip_def)
  then have "x \<in> set (dropWhile is_space s)"
    using set_dropWhileD by fastforce
  then show "x \<in> set s"
    by (rule set_dropWhileD)
qed

text \<open>
  C9 (amended). \<open>clean_response\<close> keeps the text after the last colon (the whole text when
  there is none), trims it, and then replaces every run of whitespace by one space; the
  result contains no colon.
\<close>

theorem clean_response_last_colon:
  "clean_response text
     = sub_whitespace (py_strip (rev (takeWhile (\<lambda>c. c \<noteq> CHR '':'') (rev text))))
   \<and> CHR '':'' \<notin> set (clean_response text)"
proof -
  have eq: "clean_response text
     = sub_whitespace (py_strip (rev (takeWhile (\<lambda>c. c \<noteq> CHR '':'') (rev text))))"
  proof (cases "CHR '':'' \<in> set text")
    case True
    then show ?thesis
      by (simp add: clean_response_def py_split_def last_py_split_aux_char)
  next
    case False
    then show ?thesis
      by (simp add: clean_response_def takeWhile_rev_absent)
  qed
  have "CHR '':'' \<notin> set (rev (takeWhile (\<lambda>c. c \<noteq> CHR '':'') (rev text)))"
    using set_takeWhileD by fastforce
  then have "CHR '':'' \<notin> set (py_strip (rev (takeWhile (\<lambda>c. c \<noteq> CHR '':'') (rev text))))"
    using set_py_strip by blast
  then have "CHR '':'' \<notin> set (sub_whitespace (py_strip (rev (takeWhile (\<lambda>c. c \<noteq> CHR '':'') (rev text)))))"
    using set_collapse_ws [of False] unfolding sub_whitespace_def by fastforce
  with eq show ?thesis by simp
qed

text \<open>
  With two colons the source and the wording of the specification (the remainder after the
  first colon) part ways.
\<close>

theorem clean_response_not_first_colon:
  "clean_response ''Name: Acme: Retail'' = ''Retail''
   \<and> clean_response_first_colon ''Name: Acme: Retail'' = ''Acme: Retail''
   \<and> clean_response ''Name: Acme: Retail'' \<noteq> clean_response_first_colon ''Name: Acme: Retail''"
  by (simp add: clean_response_def clean_response_first_colon_def py_split_def py_strip_def
        sub_whitespace_def is_space_def whitespace_chars_def)

subsection \<open>Chunking\<close>

lemma chunk_loop_groups:
  "chunk_loop m ps (map (py_join '' '') gs) cur len
     = map (py_join '' '') (group_loop m ps gs cur len)"
proof (induction ps arbitrary: gs cur len)
  case Nil
  then show ?case by simp
next
  case (Cons p ps)
  show ?case
    using Cons.IH [of "gs @ [cur]" "[p]"] Cons.IH [of gs "cur @ [p]"]
    by (simp add: Let_def)
qed

lemma concat_group_loop:
  "concat (group_loop m ps gs cur len) = concat gs @ cur @ ps"
  by (induction ps arbitrary: gs cur len) (simp_all add: Let_def)

lemma group_loop_nonempty:
  "cur \<noteq> [] \<or> ps \<noteq> [] \<Longrightarrow> group_loop m ps gs cur len \<noteq> []"
  by (induction ps arbitrary: gs cur len) (simp_all add: Let_def)

lemma group_loop_budget:
  "len = word_count cur \<Longrightarrow> within_budget m cur \<Longrightarrow> list_all (within_budget m) gs
     \<Longrightarrow> list_all (within_budget m) (group_loop m ps gs cur len)"
proof (induction ps arbitrary: gs cur len)
  case Nil
  then show ?case by simp
next
  case (Cons p ps)
  let ?n = "length (py_split_ws p)"
  show ?case
  proof (cases "len + ?n > m")
    case True
    have "list_all (within_budget m) (group_loop m ps (gs @ [cur]) [p] ?n)"
      using Cons.prems by (intro Cons.IH) (simp_all add: within_budget_def word_count_def)
    with True show ?thesis by (simp add: Let_def)
  next
    case False
    have "list_all (within_budget m) (group_loop m ps gs (cur @ [p]) (len + ?n))"
      using Cons.prems False by (intro Cons.IH) (simp_all add: within_budget_def word_count_def)
    with False show ?thesis by (simp add: Let_def)
  qed
qed

lemma word_count_member: "p \<in> set g \<Longrightarrow> length (py_split_ws p) \<le> word_count g"
  unfolding word_count_def by (induction g) auto

lemma overlong_alone:
  assumes "within_budget m g" and "p \<in> set g" and "m < length (py_split_ws p)"
  shows "g = [p]"
proof -
  have "m < word_count g"
    using assms(2,3) word_count_member [of p g] by simp
  then have "length g = 1"
    using assms(1) by (simp add: within_budget_def)
  then show ?thesis
    using assms(2) by (cases g) auto
qed

lemma paragraph_groups_budget: "list_all (within_budget m) (paragraph_groups text m)"
  unfolding paragraph_groups_def
  by (rule group_loop_budget) (simp_all add: within_budget_def word_count_def)

lemma chunk_text_groups: "chunk_text text m = map (py_join '' '') (paragraph_groups text m)"
  using chunk_loop_groups [of m "py_split blank_line text" "[]" "[]" 0]
  by (simp add: chunk_text_def paragraph_groups_def)

lemma chunk_text_nonempty: "chunk_text text m \<noteq> []"
  by (simp add: chunk_text_groups paragraph_groups_def group_loop_nonempty py_split_def py_split_aux_nonempty)

lemma parse_document_first_chunk:
  "parse_document gen text filename
     = parse_chunk gen (hd (chunk_text text 512)) (structured_data filename)"
  using chunk_text_nonempty [of "text" 512]
  by (cases "chunk_text text 512") (simp_all add: parse_document_def)

text \<open>
  When the first paragraph alone exceeds the budget, the loop flushes the still empty
  current chunk: the first chunk is the empty string, and the long paragraph is the second.
\<close>

lemma hd_chunk_loop:
  "chunks \<noteq> [] \<Longrightarrow> hd (chunk_loop m ps chunks cur len) = hd chunks"
  by (induction ps arbitrary: chunks cur len) (simp_all add: Let_def)

lemma chunk_text_overlong_first:
  assumes "py_split blank_line text = p # ps" and "m < length (py_split_ws p)"
  shows "hd (chunk_text text m) = []"
  using assms by (simp add: chunk_text_def Let_def hd_chunk_loop)

subsection \<open>Field-by-field extraction\<close>

lemma direct_failure:
  "key \<in> set fs \<Longrightarrow> isl (gen (get_field_prompt key chunk))
     \<Longrightarrow> isl (process_direct_fields gen chunk fs d)"
  by (induction fs arbitrary: d) (auto split: sum.splits)

lemma nested_failure:
  "key \<in> set fs \<Longrightarrow> isl (gen (get_field_prompt (pre @ key) chunk))
     \<Longrightarrow> isl (process_nested_fields gen chunk pre store fs d)"
  by (induction fs arbitrary: d) (auto split: sum.splits)

lemma parse_chunk_failure:
  assumes "key \<in> set prompt_keys" and "isl (gen (get_field_prompt key chunk))"
  shows "isl (parse_chunk gen chunk d)"
proof -
  consider (direct) "key \<in> set direct_fields"
    | (addr) f where "f \<in> set address_fields" "key = ''address_'' @ f"
    | (contact) f where "f \<in> set contact_fields" "key = ''contact_'' @ f"
    | (business) "key \<in> set business_fields"
    using assms(1) unfolding prompt_keys_def by auto
  then show ?thesis
  proof cases
    case direct
    then have "isl (process_direct_fields gen chunk direct_fields d)"
      using assms(2) by (rule direct_failure)
    then show ?thesis by (auto simp add: parse_chunk_def split: sum.splits)
  next
    case addr
    then have "isl (process_nested_fields gen chunk ''address_'' set_address address_fields d')" for d'
      using assms(2) nested_failure by blast
    then have "process_nested_fields gen chunk ''address_'' set_address address_fields d' \<noteq> Inr y" for d' y
      by (metis sum.disc(2))
    then show ?thesis by (simp add: parse_chunk_def split: sum.splits)
  next
    case contact
    then have "isl (process_nested_fields gen chunk ''contact_'' set_contact contact_fields d')" for d'
      using assms(2) nested_failure by blast
    then have "process_nested_fields gen chunk ''contact_'' set_contact contact_fields d' \<noteq> Inr y" for d' y
      by (metis sum.disc(2))
    then show ?thesis by (simp add: parse_chunk_def split: sum.splits)
  next
    case business
    then have "isl (process_nested_fields gen chunk '''' set_business business_fields d')" for d'
      using assms(2) nested_failure [of key business_fields gen "''''" chunk] by simp
    then show ?thesis by (auto simp add: parse_chunk_def split: sum.splits)
  qed
qed

lemma store_direct_cases:
  "(case v of Some s \<Rightarrow> set_direct field s d | None \<Rightarrow> set_direct field '''' d)
     = set_direct field (text_or '''' v) d"
  by (cases v) (simp_all add: text_or_def)

lemma store_address_cases:
  "(case v of Some s \<Rightarrow> set_address ''street'' s d | None \<Rightarrow> d)
     = d\<lparr>address := (address d)\<lparr>street := text_or (street (address d)) v\<rparr>\<rparr>"
  "(case v of Some s \<Rightarrow> set_address ''city'' s d | None \<Rightarrow> d)
     = d\<lparr>address := (address d)\<lparr>city := text_or (city (address d)) v\<rparr>\<rparr>"
  "(case v of Some s \<Rightarrow> set_address ''state'' s d | None \<Rightarrow> d)
     = d\<lparr>address := (address d)\<lparr>state := text_or (state (address d)) v\<rparr>\<rparr>"
  "(case v of Some s \<Rightarrow> set_address ''zip'' s d | None \<Rightarrow> d)
     = d\<lparr>address := (address d)\<lparr>zip_field := text_or (zip_field (address d)) v\<rparr>\<rparr>"
  by (cases v; simp add: set_address_def text_or_def)+

lemma store_contact_cases:
  "(case v of Some s \<Rightarrow> set_contact ''phone'' s d | None \<Rightarrow> d)
     = d\<lparr>contact_info := (contact_info d)\<lparr>phone := text_or (phone (contact_info d)) v\<rparr>\<rparr>"
  "(case v of Some s \<Rightarrow> set_contact ''email'' s d | None \<Rightarrow> d)
     = d\<lparr>contact_info := (contact_info d)\<lparr>email := text_or (email (contact_info d)) v\<rparr>\<rparr>"
  by (cases v; simp add: set_contact_def text_or_def)+

lemma store_business_cases:
  "(case v of Some s \<Rightarrow> set_business ''business_type'' s d | None \<Rightarrow> d)
     = d\<lparr>business_info := (business_info d)\<lparr>business_type := text_or (business_type (business_info d)) v\<rparr>\<rparr>"
  "(case v of Some s \<Rightarrow> set_business ''annual_revenue'' s d | None \<Rightarrow> d)
     = d\<lparr>business_info := (business_info d)\<lparr>annual_revenue := text_or (annual_revenue (business_info d)) v\<rparr>\<rparr>"
  "(case v of Some s \<Rightarrow> set_business ''years_in_business'' s d | None \<Rightarrow> d)
     = d\<lparr>business_info := (business_info d)\<lparr>years_in_business := text_or (years_in_business (business_info d)) v\<rparr>\<rparr>"
  "(case v of Some s \<Rightarrow> set_business ''processing_volume'' s d | None \<Rightarrow> d)
     = d\<lparr>business_info := (business_info d)\<lparr>processing_volume := text_or (processing_volume (business_info d)) v\<rparr>\<rparr>"
  by (cases v; simp add: set_business_def text_or_def)+

lemma parse_chunk_success:
  assumes "\<forall>key \<in> set prompt_keys. \<not> isl (gen (get_field_prompt key chunk))"
  shows "parse_chunk gen chunk (structured_data filename) = Inr (extracted_record gen chunk filename)"
proof -
  have ok: "\<exists>r. gen (get_field_prompt key chunk) = Inr r" if "key \<in> set prompt_keys" for key
    using assms that by (cases "gen (get_field_prompt key chunk)") auto
  obtain r1 where r1: "gen (get_field_prompt ''merchant_name'' chunk) = Inr r1"
    using ok [of "''merchant_name''"] by (auto simp add: prompt_keys_def direct_fields_def)
  obtain r2 where r2: "gen (get_field_prompt ''ein_or_ssn'' chunk) = Inr r2"
    using ok [of "''ein_or_ssn''"] by (auto simp add: prompt_keys_def direct_fields_def)
  obtain r3 where r3: "gen (get_field_prompt ''document_type'' chunk) = Inr r3"
    using ok [of "''document_type''"] by (auto simp add: prompt_keys_def direct_fields_def)
  obtain r4 where r4: "gen (get_field_prompt ''requested_amount'' chunk) = Inr r4"
    using ok [of "''requested_amount''"] by (auto simp add: prompt_keys_def direct_fields_def)
  obtain r5 where r5: "gen (get_field_prompt ''address_street'' chunk) = Inr r5"
    using ok [of "''address_street''"] by (auto simp add: prompt_keys_def address_fields_def)
  obtain r6 where r6: "gen (get_field_prompt ''address_city'' chunk) = Inr r6"
    using ok [of "''address_city''"] by (auto simp add: prompt_keys_def address_fields_def)
  obtain r7 where r7: "gen (get_field_prompt ''address_state'' chunk) = Inr r7"
    using ok [of "''address_state''"] by (auto simp add: prompt_keys_def address_fields_def)
  obtain r8 where r8: "gen (get_field_prompt ''address_zip'' chunk) = Inr r8"
    using ok [of "''address_zip''"] by (auto simp add: prompt_keys_def address_fields_def)
  obtain r9 where r9: "gen (get_field_prompt ''contact_phone'' chunk) = Inr r9"
    using ok [of "''contact_phone''"] by (auto simp add: prompt_keys_def contact_fields_def)
  obtain r10 where r10: "gen (get_field_prompt ''contact_email'' chunk) = Inr r10"
    using ok [of "''contact_email''"] by (auto simp add: prompt_keys_def contact_fields_def)
  obtain r11 where r11: "gen (get_field_prompt ''business_type'' chunk) = Inr r11"
    using ok [of "''business_type''"] by (auto simp add: prompt_keys_def business_fields_def)
  obtain r12 where r12: "gen (get_field_prompt ''annual_revenue'' chunk) = Inr r12"
    using ok [of "''annual_revenue''"] by (auto simp add: prompt_keys_def business_fields_def)
  obtain r13 where r13: "gen (get_field_prompt ''years_in_business'' chunk) = Inr r13"
    using ok [of "''years_in_business''"] by (auto simp add: prompt_keys_def business_fields_def)
  obtain r14 where r14: "gen (get_field_prompt ''processing_volume'' chunk) = Inr r14"
    using ok [of "''processing_volume''"] by (auto simp add: prompt_keys_def business_fields_def)
  note calls = r1 r2 r3 r4 r5 r6 r7 r8 r9 r10 r11 r12 r13 r14
  have direct: "process_direct_fields gen chunk direct_fields (structured_data filename)
      = Inr ((structured_data filename)
           \<lparr> merchant_name := text_or '''' (response_text r1),
             ein_or_ssn := text_or '''' (response_text r2),
             document_type := text_or '''' (response_text r3),
             requested_amount := text_or '''' (response_text r4) \<rparr>)"
    by (simp add: direct_fields_def calls store_direct_cases set_direct_def)
  show ?thesis
    unfolding parse_chunk_def direct
    by (simp add: address_fields_def contact_fields_def business_fields_def calls
          store_address_cases store_contact_cases store_business_cases
          extracted_record_def completion_text_def structured_data_def)
qed

lemma chunk_text_acme: "chunk_text ''Acme Corp'' 512 = [''Acme Corp'']"
  by (simp add: chunk_text_def blank_line_def py_split_def py_split_ws_def is_space_def
        whitespace_chars_def Let_def)

lemma prompt_of_key:
  "get_field_prompt ''merchant_name'' t = ''Extract the merchant or business name from this text: '' @ t"
  "get_field_prompt ''ein_or_ssn'' t = ''Find the tax ID, EIN number, or SSN from this text: '' @ t"
  "get_field_prompt ''document_type'' t
     = ''What type of document is this (application, statement, invoice, etc.): '' @ t"
  "get_field_prompt ''requested_amount'' t
     = ''Extract the requested loan or funding amount from this text: '' @ t"
  "get_field_prompt ''address_street'' t
     = ''Extract only the street address (no city/state/zip) from this text: '' @ t"
  "get_field_prompt ''address_city'' t
     = ''Extract only the city name from this address information: '' @ t"
  "get_field_prompt ''address_state'' t
     = ''Extract only the state (2-letter abbreviation preferred) from this address: '' @ t"
  "get_field_prompt ''address_zip'' t = ''Extract only the ZIP code from this address: '' @ t"
  "get_field_prompt ''contact_phone'' t = ''Find the phone number from this text: '' @ t"
  "get_field_prompt ''contact_email'' t = ''Find the email address from this text: '' @ t"
  "get_field_prompt ''business_type'' t = ''What type of business is described in this text: '' @ t"
  "get_field_prompt ''annual_revenue'' t = ''Extract the annual revenue amount from this text: '' @ t"
  "get_field_prompt ''years_in_business'' t
     = ''How many years has this business been operating according to the text: '' @ t"
  "get_field_prompt ''processing_volume'' t
     = ''Find the credit card processing volume from this text: '' @ t"
  by (simp_all add: get_field_prompt_def field_prompts_def)

lemma ein_failing_generator_fails:
  "isl (ein_failing_generator (get_field_prompt ''ein_or_ssn'' ''Acme Corp''))"
  by (simp add: prompt_of_key ein_failing_generator_def)

lemma sparse_generator_returns: "\<not> isl (sparse_generator prompt)"
  by (simp add: sparse_generator_def)

lemma clean_response_answer: "clean_response ''Answer: Acme'' = ''Acme''"
  by (simp add: clean_response_def py_split_def py_strip_def sub_whitespace_def is_space_def
        whitespace_chars_def)

lemma sparse_generator_completions:
  "completion_text sparse_generator ''Acme Corp'' ''merchant_name'' = ''Acme''"
  "completion_text sparse_generator ''Acme Corp'' ''ein_or_ssn'' = []"
  "completion_text sparse_generator ''Acme Corp'' ''document_type'' = []"
  by (simp_all add: completion_text_def prompt_of_key sparse_generator_def response_text_def
        text_or_def clean_response_answer)

text \<open>
  C3 (amended). Extraction is all or nothing with respect to exceptions: if the call for any
  one of the fourteen prompts raises, \<open>parse_document\<close> raises; if none raises it returns
  the complete record \<open>extracted_record\<close>, in which a field whose response is not a
  non-empty list is the empty string.
\<close>

theorem parse_document_all_or_nothing:
  "(key \<in> set prompt_keys \<and> isl (gen (get_field_prompt key (hd (chunk_text text 512))))
      \<longrightarrow> isl (parse_document gen text filename))
   \<and> ((\<forall>key \<in> set prompt_keys. \<not> isl (gen (get_field_prompt key (hd (chunk_text text 512)))))
      \<longrightarrow> parse_document gen text filename
            = Inr (extracted_record gen (hd (chunk_text text 512)) filename))"
  using parse_chunk_failure parse_chunk_success
  by (auto simp add: parse_document_first_chunk)

theorem parse_document_all_or_nothing_witness:
  "''ein_or_ssn'' \<in> set prompt_keys
   \<and> isl (ein_failing_generator (get_field_prompt ''ein_or_ssn'' (hd (chunk_text ''Acme Corp'' 512))))
   \<and> isl (parse_document ein_failing_generator ''Acme Corp'' (Some ''acme.pdf''))
   \<and> list_all (\<lambda>key. \<not> isl (sparse_generator (get_field_prompt key (hd (chunk_text ''Acme Corp'' 512)))))
        prompt_keys
   \<and> parse_document sparse_generator ''Acme Corp'' (Some ''acme.pdf'')
       = Inr (extracted_record sparse_generator ''Acme Corp'' (Some ''acme.pdf''))
   \<and> merchant_name (extracted_record sparse_generator ''Acme Corp'' (Some ''acme.pdf'')) = ''Acme''
   \<and> ein_or_ssn (extracted_record sparse_generator ''Acme Corp'' (Some ''acme.pdf'')) = []
   \<and> document_type (extracted_record sparse_generator ''Acme Corp'' (Some ''acme.pdf'')) = []"
proof -
  have key: "''ein_or_ssn'' \<in> set prompt_keys"
    by (simp add: prompt_keys_def direct_fields_def)
  have "isl (parse_document ein_failing_generator ''Acme Corp'' (Some ''acme.pdf''))"
    using parse_document_all_or_nothing
            [of "''ein_or_ssn''" ein_failing_generator "''Acme Corp''" "Some ''acme.pdf''"]
          key ein_failing_generator_fails
    by (simp add: chunk_text_acme)
  moreover have "parse_document sparse_generator ''Acme Corp'' (Some ''acme.pdf'')
       = Inr (extracted_record sparse_generator ''Acme Corp'' (Some ''acme.pdf''))"
    using parse_document_all_or_nothing
            [of "''ein_or_ssn''" sparse_generator "''Acme Corp''" "Some ''acme.pdf''"]
    by (simp add: chunk_text_acme sparse_generator_returns)
  ultimately show ?thesis
    using key ein_failing_generator_fails
    by (simp add: chunk_text_acme sparse_generator_returns extracted_record_def
          sparse_generator_completions list_all_iff)
qed

text \<open>
  One failing call is enough: with a backend that raises on the EIN prompt and answers every
  other prompt, no record is returned.
\<close>

theorem parse_document_single_failure:
  "parse_document ein_failing_generator ''Acme Corp'' (Some ''acme.pdf'')
     = Inl (PyException ''backend unavailable'')"
  by (simp add: parse_document_def chunk_text_acme parse_chunk_def direct_fields_def
        prompt_of_key ein_failing_generator_def)

subsection \<open>The chunks and the chunk that is read\<close>

text \<open>
  A paragraph of 513 words is longer than the budget of \<open>parse_document\<close>: its chunks
  are the empty string and the paragraph, as for the empty text the first chunk is the
  empty string.
\<close>

lemma py_split_ws_aux_words:
  "py_split_ws_aux [] (concat (replicate n ''w '')) = replicate n ''w''"
  by (induction n) (simp_all add: is_space_def whitespace_chars_def)

lemma py_split_aux_no_newline:
  "CHR 0x0A \<notin> set s \<Longrightarrow> py_split_aux blank_line cur s = [rev cur @ s]"
  by (induction s arbitrary: cur) (auto simp add: blank_line_def)

lemma long_paragraph_split:
  "py_split blank_line long_paragraph = [long_paragraph]"
  "length (py_split_ws long_paragraph) = 513"
proof -
  have "CHR 0x0A \<notin> set (concat (replicate n ''w ''))" for n
    by (induction n) simp_all
  then show "py_split blank_line long_paragraph = [long_paragraph]"
    by (simp add: py_split_def long_paragraph_def py_split_aux_no_newline)
  show "length (py_split_ws long_paragraph) = 513"
    by (simp add: py_split_ws_def long_paragraph_def py_split_ws_aux_words)
qed

lemma chunk_text_long_paragraph: "chunk_text long_paragraph 512 = ['''', long_paragraph]"
  by (simp add: chunk_text_def long_paragraph_split Let_def)

lemma chunk_text_empty: "chunk_text '''' 512 = ['''']"
  by (simp add: chunk_text_def py_split_def py_split_ws_def Let_def)

lemma sparse_generator_merchant:
  "completion_text sparse_generator t ''merchant_name'' = ''Acme''"
  by (simp add: completion_text_def prompt_of_key sparse_generator_def response_text_def
        text_or_def clean_response_answer)

lemma prompt_keys_count: "length prompt_keys = 14" "distinct prompt_keys"
  by (simp_all add: prompt_keys_def direct_fields_def address_fields_def contact_fields_def
        business_fields_def)

lemma prompt_prefix:
  assumes "key \<in> set prompt_keys"
  shows "\<exists>prefix. prefix \<noteq> [] \<and> (\<forall>t. get_field_prompt key t = prefix @ t)"
proof -
  have "key \<in> {''merchant_name'', ''ein_or_ssn'', ''document_type'', ''requested_amount'',
      ''address_street'', ''address_city'', ''address_state'', ''address_zip'',
      ''contact_phone'', ''contact_email'', ''business_type'', ''annual_revenue'',
      ''years_in_business'', ''processing_volume''}"
    using assms
    by (simp add: prompt_keys_def direct_fields_def address_fields_def contact_fields_def
          business_fields_def)
  then show ?thesis
    by (elim insertE emptyE; simp only: prompt_of_key; blast)
qed

text \<open>
  C7. The chunks are the groups of \<open>paragraph_groups\<close>, each joined by a space. The groups
  taken together are the paragraphs between the blank-line separators, whole and in order;
  a group has at most \<open>m\<close> words or is a single paragraph, so a paragraph of more than \<open>m\<close>
  words is a chunk of its own. There is always a first chunk; when the first paragraph
  alone exceeds the budget, the first chunk is the empty string and the paragraph is the
  second chunk.

  \<open>parse_document\<close> reads the first chunk of the 512-word chunking and nothing else. Each
  of the fourteen prompts is a fixed non-empty instruction followed by that chunk. When
  no call of the backend raises, the record returned holds, field by field, the cleaned
  completions of these prompts; when a call raises, so does \<open>parse_document\<close>. Two texts
  with the same first chunk are parsed alike.
\<close>

theorem chunk_text_paragraphs:
  "chunk_text text m = map (py_join '' '') (paragraph_groups text m)
   \<and> concat (paragraph_groups text m) = py_split blank_line text
   \<and> (\<forall>g \<in> set (paragraph_groups text m). word_count g \<le> m \<or> length g = 1)
   \<and> (\<forall>g \<in> set (paragraph_groups text m). \<forall>p \<in> set g. m < length (py_split_ws p) \<longrightarrow> g = [p])
   \<and> chunk_text text m \<noteq> []
   \<and> (py_split blank_line text = first_paragraph # later
        \<and> m < length (py_split_ws first_paragraph) \<longrightarrow> hd (chunk_text text m) = [])
   \<and> parse_document gen text filename
       = parse_chunk gen (hd (chunk_text text 512)) (structured_data filename)
   \<and> length prompt_keys = 14 \<and> distinct prompt_keys
   \<and> (\<forall>key \<in> set prompt_keys.
         \<exists>prefix. prefix \<noteq> [] \<and> (\<forall>t. get_field_prompt key t = prefix @ t))
   \<and> ((\<forall>key \<in> set prompt_keys. \<not> isl (gen (get_field_prompt key (hd (chunk_text text 512)))))
        \<longrightarrow> parse_document gen text filename
              = Inr (extracted_record gen (hd (chunk_text text 512)) filename))
   \<and> ((\<exists>key \<in> set prompt_keys. isl (gen (get_field_prompt key (hd (chunk_text text 512)))))
        \<longrightarrow> isl (parse_document gen text filename))
   \<and> (hd (chunk_text other 512) = hd (chunk_text text 512)
        \<longrightarrow> parse_document gen other filename = parse_document gen text filename)"
proof -
  have budget: "\<forall>g \<in> set (paragraph_groups text m). within_budget m g"
    using paragraph_groups_budget [of m "text"] by (simp add: list_all_iff)
  have alone: "\<forall>g \<in> set (paragraph_groups text m). \<forall>p \<in> set g. m < length (py_split_ws p) \<longrightarrow> g = [p]"
    using budget overlong_alone by blast
  have groups: "concat (paragraph_groups text m) = py_split blank_line text"
    by (simp add: paragraph_groups_def concat_group_loop)
  have chunking:
    "chunk_text text m = map (py_join '' '') (paragraph_groups text m)
     \<and> concat (paragraph_groups text m) = py_split blank_line text
     \<and> (\<forall>g \<in> set (paragraph_groups text m). word_count g \<le> m \<or> length g = 1)
     \<and> (\<forall>g \<in> set (paragraph_groups text m). \<forall>p \<in> set g. m < length (py_split_ws p) \<longrightarrow> g = [p])
     \<and> chunk_text text m \<noteq> []"
    using budget alone groups chunk_text_groups [of "text" m] chunk_text_nonempty [of "text" m]
    by (simp add: within_budget_def)
  have first_empty: "py_split blank_line text = first_paragraph # later
        \<and> m < length (py_split_ws first_paragraph) \<longrightarrow> hd (chunk_text text m) = []"
    using chunk_text_overlong_first [of "text" first_paragraph later m] by blast
  have prefixes: "\<forall>key \<in> set prompt_keys.
         \<exists>prefix. prefix \<noteq> [] \<and> (\<forall>t. get_field_prompt key t = prefix @ t)"
    using prompt_prefix by blast
  have success: "(\<forall>key \<in> set prompt_keys. \<not> isl (gen (get_field_prompt key (hd (chunk_text text 512)))))
        \<longrightarrow> parse_document gen text filename
              = Inr (extracted_record gen (hd (chunk_text text 512)) filename)"
    using parse_chunk_success [of gen "hd (chunk_text text 512)" filename]
    by (simp add: parse_document_first_chunk)
  have failure: "(\<exists>key \<in> set prompt_keys. isl (gen (get_field_prompt key (hd (chunk_text text 512)))))
        \<longrightarrow> isl (parse_document gen text filename)"
    using parse_chunk_failure [of _ gen "hd (chunk_text text 512)" "structured_data filename"]
    by (auto simp add: parse_document_first_chunk)
  have same: "hd (chunk_text other 512) = hd (chunk_text text 512)
        \<longrightarrow> parse_document gen other filename = parse_document gen text filename"
    by (simp add: parse_document_first_chunk)
  show ?thesis
    using chunking first_empty prefixes success failure same prompt_keys_count
          parse_document_first_chunk [of gen "text" filename]
    by blast
qed

text \<open>
  The text of three paragraphs with a budget of two words; the paragraph of 513 words,
  which is parsed from the empty string, like the empty text; and a backend that raises.
\<close>

theorem chunk_text_paragraphs_witness:
  "paragraph_groups three_paragraphs 2 = [[''a b''], [''c d e''], [''f'']]
   \<and> chunk_text three_paragraphs 2 = [''a b'', ''c d e'', ''f'']
   \<and> [''c d e''] \<in> set (paragraph_groups three_paragraphs 2)
   \<and> ''c d e'' \<in> set [''c d e'']
   \<and> 2 < length (py_split_ws ''c d e'')
   \<and> word_count [''a b''] \<le> 2
   \<and> py_split blank_line long_paragraph = [long_paragraph]
   \<and> 512 < length (py_split_ws long_paragraph)
   \<and> chunk_text long_paragraph 512 = ['''', long_paragraph]
   \<and> hd (chunk_text long_paragraph 512) = []
   \<and> ''merchant_name'' \<in> set prompt_keys
   \<and> get_field_prompt ''merchant_name'' (hd (chunk_text long_paragraph 512))
       = ''Extract the merchant or business name from this text: ''
   \<and> list_all (\<lambda>key. \<not> isl (sparse_generator
                                (get_field_prompt key (hd (chunk_text long_paragraph 512)))))
        prompt_keys
   \<and> parse_document sparse_generator long_paragraph (Some ''acme.pdf'')
       = Inr (extracted_record sparse_generator [] (Some ''acme.pdf''))
   \<and> merchant_name (extracted_record sparse_generator [] (Some ''acme.pdf'')) = ''Acme''
   \<and> hd (chunk_text '''' 512) = hd (chunk_text long_paragraph 512)
   \<and> parse_document sparse_generator '''' (Some ''acme.pdf'')
       = parse_document sparse_generator long_paragraph (Some ''acme.pdf'')
   \<and> ''ein_or_ssn'' \<in> set prompt_keys
   \<and> isl (ein_failing_generator
            (get_field_prompt ''ein_or_ssn'' (hd (chunk_text ''Acme Corp'' 512))))
   \<and> isl (parse_document ein_failing_generator ''Acme Corp'' (Some ''acme.pdf''))"
proof -
  have small:
    "paragraph_groups three_paragraphs 2 = [[''a b''], [''c d e''], [''f'']]
     \<and> chunk_text three_paragraphs 2 = [''a b'', ''c d e'', ''f'']
     \<and> [''c d e''] \<in> set (paragraph_groups three_paragraphs 2)
     \<and> ''c d e'' \<in> set [''c d e'']
     \<and> 2 < length (py_split_ws ''c d e'')
     \<and> word_count [''a b''] \<le> 2"
    using chunk_text_paragraphs [of three_paragraphs 2]
    by (simp add: three_paragraphs_def paragraph_groups_def chunk_text_def blank_line_def
          py_split_def py_split_ws_def word_count_def is_space_def whitespace_chars_def Let_def)
  have keys: "''merchant_name'' \<in> set prompt_keys" "''ein_or_ssn'' \<in> set prompt_keys"
    by (simp_all add: prompt_keys_def direct_fields_def)
  note long = chunk_text_paragraphs
      [of long_paragraph 512 long_paragraph "[]" sparse_generator "Some ''acme.pdf''" "''''"]
  have "py_split blank_line long_paragraph = long_paragraph # []
      \<and> 512 < length (py_split_ws long_paragraph)"
    by (simp add: long_paragraph_split)
  with long have first_empty: "hd (chunk_text long_paragraph 512) = []"
    by blast
  have "\<forall>key \<in> set prompt_keys.
      \<not> isl (sparse_generator (get_field_prompt key (hd (chunk_text long_paragraph 512))))"
    by (simp add: sparse_generator_returns)
  with long have "parse_document sparse_generator long_paragraph (Some ''acme.pdf'')
       = Inr (extracted_record sparse_generator (hd (chunk_text long_paragraph 512))
                (Some ''acme.pdf''))"
    by blast
  then have parsed: "parse_document sparse_generator long_paragraph (Some ''acme.pdf'')
       = Inr (extracted_record sparse_generator [] (Some ''acme.pdf''))"
    by (simp only: first_empty)
  have "hd (chunk_text '''' 512) = hd (chunk_text long_paragraph 512)"
    by (simp add: first_empty chunk_text_empty)
  with long have same: "parse_document sparse_generator '''' (Some ''acme.pdf'')
       = parse_document sparse_generator long_paragraph (Some ''acme.pdf'')"
    by blast
  have "\<exists>key \<in> set prompt_keys.
      isl (ein_failing_generator (get_field_prompt key (hd (chunk_text ''Acme Corp'' 512))))"
    using keys(2) ein_failing_generator_fails by (auto simp add: chunk_text_acme)
  with chunk_text_paragraphs
         [of "''Acme Corp''" 512 "[]" "[]" ein_failing_generator "Some ''acme.pdf''" "[]"]
  have failing: "isl (parse_document ein_failing_generator ''Acme Corp'' (Some ''acme.pdf''))"
    by blast
  show ?thesis
    using small keys first_empty parsed same failing ein_failing_generator_fails
    by (simp add: long_paragraph_split chunk_text_long_paragraph chunk_text_empty
          chunk_text_acme sparse_generator_returns list_all_iff prompt_of_key
          extracted_record_def sparse_generator_merchant)
qed

section \<open>Properties of the submission adapter\<close>

lemma mock_crm_submit_status:
  "crm_status (mock_crm_submit rnd now v) \<in> set outcome_statuses"
  by (simp add: mock_crm_submit_def outcome_statuses_def Let_def)

lemma mock_crm_submit_rejected:
  "validation_status v = ''failed'' \<Longrightarrow> crm_status (mock_crm_submit rnd now v) = ''rejected''"
  by (simp add: mock_crm_submit_def)

lemma validate_clean_record:
  "validation_status (validate_document now (clean_record [])) = ''passed''"
  "v_confidence_score (validate_document now (clean_record [])) = Some (float_literal 0.7)"
  "v_source_file (validate_document now (clean_record [])) = ''acme.pdf''"
  by (simp_all add: validate_document_def Let_def clean_record_issues) (simp_all add: clean_record_def)

lemma validate_five_issue_record:
  "validation_status (validate_document now (five_issue_record c)) = ''failed''"
  "v_source_file (validate_document now (five_issue_record c)) = []"
  by (simp_all add: validate_document_def Let_def five_issue_record_issues)
     (simp add: five_issue_record_def)

text \<open>
  C8 (amended). \<open>submit_document\<close> never raises and returns a wrapper whose \<open>status\<close> is
  \<open>success\<close> or \<open>failed\<close>. When the JSON file is written the wrapper is a \<open>success\<close> and
  carries the response of the CRM, whose own status is one of \<open>accepted\<close>, \<open>rejected\<close>,
  \<open>pending_review\<close> and \<open>failed\<close>; a record that failed validation is reported as a
  \<open>rejected\<close> response inside a \<open>success\<close> wrapper. When writing raises, the wrapper is
  \<open>failed\<close> and carries the message of the exception.
\<close>

theorem submit_document_outcome:
  "(status (submit_document write_json rnd now v) = ''success''
      \<or> status (submit_document write_json rnd now v) = ''failed'')
   \<and> (write_json v = Inr name \<longrightarrow>
        submit_document write_json rnd now v
          = \<lparr> status = ''success'', json_file = Some name,
              crm_response = Some (mock_crm_submit rnd now v), submit_error = None \<rparr>
        \<and> crm_status (mock_crm_submit rnd now v) \<in> set outcome_statuses)
   \<and> (write_json v = Inr name \<and> validation_status v = ''failed'' \<longrightarrow>
        status (submit_document write_json rnd now v) = ''success''
        \<and> crm_status (mock_crm_submit rnd now v) = ''rejected'')
   \<and> (write_json v = Inl e \<longrightarrow>
        submit_document write_json rnd now v
          = \<lparr> status = ''failed'', json_file = None, crm_response = None,
              submit_error = Some (message e) \<rparr>)"
  using mock_crm_submit_status [of rnd now v] mock_crm_submit_rejected [of v rnd now]
  by (cases "write_json v") (simp_all add: submit_document_def submit_attempt_def Let_def)

theorem submit_document_outcome_witness:
  "written_json (validate_document ''t'' (five_issue_record (float_literal 0.7))) = Inr ''output/.json''
   \<and> validation_status (validate_document ''t'' (five_issue_record (float_literal 0.7))) = ''failed''
   \<and> status (submit_document written_json lucky_draws ''t''
                (validate_document ''t'' (five_issue_record (float_literal 0.7)))) = ''success''
   \<and> crm_status (mock_crm_submit lucky_draws ''t''
                    (validate_document ''t'' (five_issue_record (float_literal 0.7)))) = ''rejected''
   \<and> disk_full (validate_document ''t'' (five_issue_record (float_literal 0.7)))
       = Inl (PyException ''No space left on device'')
   \<and> status (submit_document disk_full lucky_draws ''t''
                (validate_document ''t'' (five_issue_record (float_literal 0.7)))) = ''failed''
   \<and> submit_error (submit_document disk_full lucky_draws ''t''
                      (validate_document ''t'' (five_issue_record (float_literal 0.7))))
       = Some ''No space left on device''"
  using submit_document_outcome
          [of written_json lucky_draws "''t''" "validate_document ''t'' (five_issue_record (float_literal 0.7))"
              "''output/.json''"]
        submit_document_outcome
          [of disk_full lucky_draws "''t''" "validate_document ''t'' (five_issue_record (float_literal 0.7))"
              _ "PyException ''No space left on device''"]
  by (simp add: written_json_def disk_full_def validate_five_issue_record)

text \<open>
  The status of the wrapper itself is not one of the four outcome statuses: for a record
  that passes validation and a file system that writes, it is \<open>success\<close>.
\<close>

theorem submit_document_status_success:
  "status (submit_document written_json lucky_draws ''t'' (validate_document ''t'' (clean_record [])))
     = ''success''
   \<and> status (submit_document written_json lucky_draws ''t'' (validate_document ''t'' (clean_record [])))
       \<notin> set outcome_statuses"
  by (simp add: submit_document_def submit_attempt_def written_json_def outcome_statuses_def Let_def)

section \<open>Properties of the orchestrator\<close>

subsection \<open>Progress reports\<close>

lemma directory_step_pair:
  "directory_step p clock callback n (events, processed) entry
     = (events @ step_events callback n entry, processed @ [step_result p clock callback n entry])"
  by (cases entry; cases callback)
     (auto simp add: directory_step_def step_events_def step_result_def Let_def split: option.splits)

lemma foldl_directory_step:
  "foldl (directory_step p clock callback n) (events, processed) entries
     = (events @ concat (map (step_events callback n) entries),
        processed @ map (step_result p clock callback n) entries)"
  by (induction entries arbitrary: events processed) (simp_all add: directory_step_pair)

lemma process_files_unfold:
  "process_files p clock callback files
     = (concat (map (step_events callback (length files)) (enumerate 0 files)),
        map (step_result p clock callback (length files)) (enumerate 0 files))"
  by (simp add: process_files_def foldl_directory_step)

lemma progress_args_append: "progress_args (xs @ ys) = progress_args xs @ progress_args ys"
  by (induction xs rule: progress_args.induct) simp_all

lemma progress_args_step:
  "progress_args (step_events (Some f) n entry) = [(fst entry, n)]"
  by (cases entry) (simp add: step_events_def split: option.splits)

lemma progress_args_steps:
  "progress_args (concat (map (step_events (Some f) n) entries)) = map (\<lambda>entry. (fst entry, n)) entries"
  by (induction entries) (simp_all add: progress_args_append progress_args_step)

lemma enumerate_indices:
  "map (\<lambda>entry. (fst entry, n)) (enumerate k xs) = map (\<lambda>i. (i, n)) [k..<k + length xs]"
proof (induction xs arbitrary: k)
  case Nil
  then show ?case by simp
next
  case (Cons x xs)
  have "[k..<k + length (x # xs)] = k # [Suc k..<Suc k + length xs]"
    by (subst upt_rec) simp
  then show ?case using Cons.IH [of "Suc k"] by simp
qed

lemma process_files_progress:
  "progress_args (fst (process_files p clock (Some f) files))
     = map (\<lambda>i. (i, length files)) [0..<length files]"
  using enumerate_indices [of "length files" 0 files]
  by (simp add: process_files_unfold progress_args_steps)

lemma worker_loop_progress:
  "progress_args (fst (worker_loop p clock interrupted n i files (events, processed)))
     = progress_args events @ map (\<lambda>j. (j, n)) [i..<i + rounds interrupted i (length files)]"
proof (induction files arbitrary: i events processed)
  case Nil
  then show ?case by simp
next
  case (Cons f fs)
  show ?case
  proof (cases "interrupted i")
    case True
    then show ?thesis by (simp add: Let_def progress_args_append)
  next
    case False
    then show ?thesis
      using Cons.IH [of "Suc i"]
      by (simp add: Let_def progress_args_append upt_conv_Cons)
  qed
qed

lemma rounds_le: "rounds interrupted i k \<le> k"
  by (induction k arbitrary: i) simp_all

lemma rounds_all: "(\<forall>j < k. \<not> interrupted (i + j)) \<Longrightarrow> rounds interrupted i k = k"
proof (induction k arbitrary: i)
  case 0
  then show ?case by simp
next
  case (Suc k)
  have "\<not> interrupted i" using Suc.prems by force
  moreover have "\<forall>j < k. \<not> interrupted (Suc i + j)"
    using Suc.prems by (metis Suc_less_eq add_Suc_shift)
  ultimately show ?case using Suc.IH [of "Suc i"] by simp
qed

text \<open>
  C5 (amended). With a callback, \<open>process_directory\<close> over \<open>n\<close> files calls it exactly \<open>n\<close>
  times with the arguments \<open>(0, n), (1, n), ..., (n - 1, n)\<close>: the first argument is the
  index of the document about to be processed, it increases strictly, and it stays below
  \<open>n\<close>. Each call comes before its document is handed to \<open>process_single_document\<close>, and
  a document whose call raised is not processed. The worker thread emits the same
  arguments for the rounds it runs: all \<open>n\<close> when no interruption is requested, fewer
  otherwise.
\<close>

theorem progress_calls_zero_based:
  "progress_args (fst (process_files p clock (Some f) files))
     = map (\<lambda>i. (i, length files)) [0..<length files]
   \<and> length (progress_args (fst (process_files p clock (Some f) files))) = length files
   \<and> sorted_wrt (<) (map fst (progress_args (fst (process_files p clock (Some f) files))))
   \<and> list_all (\<lambda>a. fst a < length files \<and> snd a = length files)
        (progress_args (fst (process_files p clock (Some f) files)))
   \<and> fst (process_files p clock (Some f) files)
       = concat (map (step_events (Some f) (length files)) (enumerate 0 files))
   \<and> progress_args (fst (worker_run p clock interrupted files))
       = map (\<lambda>i. (i, length files)) [0..<rounds interrupted 0 (length files)]
   \<and> rounds interrupted 0 (length files) \<le> length files
   \<and> ((\<forall>i < length files. \<not> interrupted i)
        \<longrightarrow> rounds interrupted 0 (length files) = length files)"
proof -
  have calls: "progress_args (fst (process_files p clock (Some f) files))
      = map (\<lambda>i. (i, length files)) [0..<length files]"
    by (rule process_files_progress)
  have "map fst (map (\<lambda>i. (i, length files)) [0..<length files]) = [0..<length files]"
    by (simp add: comp_def)
  then have sorted: "sorted_wrt (<) (map fst (progress_args (fst (process_files p clock (Some f) files))))"
    by (simp only: calls sorted_wrt_upt)
  have below: "list_all (\<lambda>a. fst a < length files \<and> snd a = length files)
        (progress_args (fst (process_files p clock (Some f) files)))"
    by (simp add: calls list_all_iff)
  have worker: "progress_args (fst (worker_run p clock interrupted files))
       = map (\<lambda>i. (i, length files)) [0..<rounds interrupted 0 (length files)]"
    using worker_loop_progress [of p clock interrupted "length files" 0 files "[]" "[]"]
    by (simp add: worker_run_def)
  have "(\<forall>i < length files. \<not> interrupted i) \<longrightarrow> rounds interrupted 0 (length files) = length files"
    using rounds_all [of "length files" interrupted 0] by simp
  then show ?thesis
    using calls sorted below worker rounds_le [of interrupted 0 "length files"]
    by (simp add: process_files_unfold)
qed

theorem progress_calls_zero_based_witness:
  "progress_args (fst (process_files sample_pipeline sample_clock (Some quiet_callback) three_files))
     = [(0, 3), (1, 3), (2, 3)]
   \<and> \<not> (\<lambda>i. False) (0::nat) \<and> \<not> (\<lambda>i. False) (1::nat) \<and> \<not> (\<lambda>i. False) (2::nat)
   \<and> rounds (\<lambda>i. False) 0 (length three_files) = length three_files
   \<and> progress_args (fst (worker_run sample_pipeline sample_clock (\<lambda>i. False) three_files))
       = [(0, 3), (1, 3), (2, 3)]
   \<and> progress_args (fst (worker_run sample_pipeline sample_clock (\<lambda>i. i = 0) three_files))
       = [(0, 3)]"
  using progress_calls_zero_based
          [of sample_pipeline sample_clock quiet_callback three_files "\<lambda>i. False"]
        progress_calls_zero_based
          [of sample_pipeline sample_clock quiet_callback three_files "\<lambda>i. i = 0"]
  by (simp add: three_files_def upt_rec eval_nat_numeral)

text \<open>
  For three files the last call reports 2 of 3: the first argument never reaches the
  total.
\<close>

theorem progress_last_call_below_total:
  "progress_args (fst (process_files sample_pipeline sample_clock (Some quiet_callback) three_files))
     = [(0, 3), (1, 3), (2, 3)]
   \<and> fst (last (progress_args
        (fst (process_files sample_pipeline sample_clock (Some quiet_callback) three_files))))
       \<noteq> length three_files"
  by (simp add: process_files_progress three_files_def upt_rec)

subsection \<open>Failure containment\<close>

lemma parse_document_sparse:
  "parse_document sparse_generator ''Acme Corp'' filename
     = Inr (extracted_record sparse_generator ''Acme Corp'' filename)"
  using parse_chunk_success [of sparse_generator "''Acme Corp''" filename]
  by (simp add: parse_document_first_chunk chunk_text_acme sparse_generator_returns)

lemma process_stages_document_pipeline:
  "process_stages (document_pipeline ocr gen now write_json rnd) file_path =
     (case ocr file_path of
        Inl e \<Rightarrow> Inl e
      | Inr extracted_text \<Rightarrow>
          if py_strip extracted_text = [] then Inl (PyException ''No text could be extracted from document'')
          else (case parse_document gen extracted_text (Some (basename file_path)) of
                  Inl e \<Rightarrow> Inl e
                | Inr d \<Rightarrow> Inr (validate_document now d,
                               submit_document write_json rnd now (validate_document now d))))"
  by (simp add: process_stages_def document_pipeline_def Let_def split: sum.splits)

lemma strip_samples: "py_strip ''   '' = []" "py_strip ''Acme Corp'' = ''Acme Corp''"
  by (simp_all add: py_strip_def is_space_def whitespace_chars_def)

lemma sample_stages:
  "process_stages sample_pipeline ''in/b.pdf'' = Inl (PyException ''cannot identify image file'')"
  "process_stages sample_pipeline ''in/c.png''
     = Inl (PyException ''No text could be extracted from document'')"
  "\<not> isl (process_stages sample_pipeline ''in/a.pdf'')"
  by (simp_all add: sample_pipeline_def process_stages_document_pipeline sample_ocr_def
        strip_samples parse_document_sparse)

lemma process_single_document_status:
  "processing_status (process_single_document p clock file_path)
     = (if isl (process_stages p file_path) then ''failed'' else ''completed'')"
  by (cases "process_stages p file_path")
     (auto simp add: process_single_document_def failed_result_def)

lemma basename_samples:
  "basename ''in/a.pdf'' = ''a.pdf''" "basename ''in/b.pdf'' = ''b.pdf''"
  "basename ''in/c.png'' = ''c.png''"
  by (simp_all add: basename_def)

lemma parse_document_ein_failure:
  "parse_document ein_failing_generator ''Acme Corp'' filename
     = Inl (PyException ''backend unavailable'')"
  by (simp add: parse_document_def chunk_text_acme parse_chunk_def direct_fields_def
        prompt_of_key ein_failing_generator_def)

lemma sample_stage_completed:
  "process_stages sample_pipeline ''in/a.pdf''
     = Inr (validate_document ''t'' (extracted_record sparse_generator ''Acme Corp'' (Some ''a.pdf'')),
            submit_document written_json lucky_draws ''t''
              (validate_document ''t'' (extracted_record sparse_generator ''Acme Corp'' (Some ''a.pdf''))))"
  by (simp add: sample_pipeline_def process_stages_document_pipeline sample_ocr_def
        strip_samples parse_document_sparse basename_samples)

lemma sample_clock_elapsed: "end_time (sample_clock i) - start_time (sample_clock i) = 2.5"
  by (simp add: sample_clock_def)

lemma process_files_empty: "process_files p clocks callback [] = ([], [])"
  by (simp add: process_files_def)

lemma process_directory_files:
  "process_directory p clocks callback input_dir (Some names)
     = Inr (process_files p clocks callback
              (map (path_join input_dir)
                 (filter (\<lambda>f. list_ex (endswith (py_lower f)) supported_extensions) names)))"
  by (simp add: process_directory_def Let_def process_files_empty)

lemma process_directory_listing:
  "map (path_join ''in'')
     (filter (\<lambda>f. list_ex (endswith (py_lower f)) supported_extensions)
        [''a.pdf'', ''notes.txt'', ''B.PNG''])
     = [''in/a.pdf'', ''in/B.PNG'']"
  by (simp add: path_join_def supported_extensions_def endswith_def py_lower_def lower_char_def)

text \<open>
  C1. \<open>process_single_document\<close> always returns one result, \<open>completed\<close> or \<open>failed\<close>.
  An exception of the stages (the OCR call, an empty text, the extraction, the validation
  or the submission) becomes a \<open>failed\<close> result that carries the message of the
  exception and the elapsed time; otherwise the result is \<open>completed\<close> and carries the
  validated record and the submission result. A batch returns one result for every file,
  each the result of its own document, whatever happened to the others.
\<close>

theorem process_single_document_contains_failure:
  "(processing_status (process_single_document p clock file_path) = ''completed''
      \<or> processing_status (process_single_document p clock file_path) = ''failed'')
   \<and> (process_stages p file_path = Inl e \<longrightarrow>
        process_single_document p clock file_path
          = \<lparr> validated_data = None, submission = None, processing_status = ''failed'',
              processing_time_seconds = Some (end_time clock - start_time clock),
              failed_file = Some (basename file_path), error = Some (message e),
              processing_timestamp = Some (failure_timestamp clock) \<rparr>)
   \<and> (process_stages p file_path = Inr (v, s) \<longrightarrow>
        process_single_document p clock file_path
          = \<lparr> validated_data = Some v, submission = Some s, processing_status = ''completed'',
              processing_time_seconds = Some (end_time clock - start_time clock),
              failed_file = None, error = None, processing_timestamp = None \<rparr>)
   \<and> (ocr_extract_text p file_path = Inl e \<longrightarrow> process_stages p file_path = Inl e)
   \<and> (ocr_extract_text p file_path = Inr extracted_text \<and> py_strip extracted_text = [] \<longrightarrow>
        process_stages p file_path = Inl (PyException ''No text could be extracted from document''))
   \<and> (ocr_extract_text p file_path = Inr extracted_text \<and> py_strip extracted_text \<noteq> []
        \<and> llm_parse_document p extracted_text (Some (basename file_path)) = Inl e \<longrightarrow>
        process_stages p file_path = Inl e)
   \<and> (ocr_extract_text p file_path = Inr extracted_text \<and> py_strip extracted_text \<noteq> []
        \<and> llm_parse_document p extracted_text (Some (basename file_path)) = Inr d
        \<and> validator_validate_document p d = Inl e \<longrightarrow>
        process_stages p file_path = Inl e)
   \<and> (ocr_extract_text p file_path = Inr extracted_text \<and> py_strip extracted_text \<noteq> []
        \<and> llm_parse_document p extracted_text (Some (basename file_path)) = Inr d
        \<and> validator_validate_document p d = Inr v
        \<and> crm_submit_document p v = Inl e \<longrightarrow>
        process_stages p file_path = Inl e)
   \<and> length (snd (process_files p clocks callback files)) = length files
   \<and> snd (process_files p clocks None files)
       = map (\<lambda>entry. process_single_document p (clocks (fst entry)) (snd entry)) (enumerate 0 files)
   \<and> snd (process_files p clocks callback files)
       = map (step_result p clocks callback (length files)) (enumerate 0 files)"
proof -
  have single: "processing_status (process_single_document p clock file_path) = ''completed''
      \<or> processing_status (process_single_document p clock file_path) = ''failed''"
    by (simp add: process_single_document_status)
  have none: "step_result p clocks None (length files)
      = (\<lambda>entry. process_single_document p (clocks (fst entry)) (snd entry))"
    by (rule ext) (simp add: step_result_def split: prod.splits)
  show ?thesis
    using single
    by (simp add: process_files_unfold none process_single_document_def failed_result_def
          process_stages_def Let_def)
qed

theorem process_single_document_contains_failure_witness:
  "ocr_extract_text sample_pipeline ''in/b.pdf'' = Inl (PyException ''cannot identify image file'')
   \<and> process_single_document sample_pipeline (sample_clock 1) ''in/b.pdf''
       = \<lparr> validated_data = None, submission = None, processing_status = ''failed'',
           processing_time_seconds = Some 2.5, failed_file = Some ''b.pdf'',
           error = Some ''cannot identify image file'', processing_timestamp = Some ''t'' \<rparr>
   \<and> ocr_extract_text sample_pipeline ''in/c.png'' = Inr ''   ''
   \<and> error (process_single_document sample_pipeline (sample_clock 2) ''in/c.png'')
       = Some ''No text could be extracted from document''
   \<and> llm_parse_document
         (document_pipeline sample_ocr ein_failing_generator ''t'' written_json lucky_draws)
         ''Acme Corp'' (Some ''a.pdf'') = Inl (PyException ''backend unavailable'')
   \<and> error (process_single_document
               (document_pipeline sample_ocr ein_failing_generator ''t'' written_json lucky_draws)
               (sample_clock 0) ''in/a.pdf'') = Some ''backend unavailable''
   \<and> error (process_single_document (stub_pipeline raising_validator raising_submitter)
               (sample_clock 0) ''in/a.pdf'') = Some ''validator crashed''
   \<and> error (process_single_document (stub_pipeline working_validator raising_submitter)
               (sample_clock 0) ''in/a.pdf'') = Some ''connection reset''
   \<and> processing_status (process_single_document sample_pipeline (sample_clock 0) ''in/a.pdf'')
       = ''completed''
   \<and> processing_time_seconds (process_single_document sample_pipeline (sample_clock 0) ''in/a.pdf'')
       = Some 2.5
   \<and> length (snd (process_files sample_pipeline sample_clock None three_files)) = 3
   \<and> map processing_status (snd (process_files sample_pipeline sample_clock None three_files))
       = [''completed'', ''failed'', ''failed'']"
proof -
  note contained = process_single_document_contains_failure
  have b: "process_single_document sample_pipeline (sample_clock 1) ''in/b.pdf''
       = \<lparr> validated_data = None, submission = None, processing_status = ''failed'',
           processing_time_seconds = Some 2.5, failed_file = Some ''b.pdf'',
           error = Some ''cannot identify image file'', processing_timestamp = Some ''t'' \<rparr>"
    using contained [where p = sample_pipeline and clock = "sample_clock 1"
                 and file_path = "''in/b.pdf''" and e = "PyException ''cannot identify image file''"]
    by (simp add: sample_stages sample_clock_elapsed basename_samples) (simp add: sample_clock_def)
  have c: "error (process_single_document sample_pipeline (sample_clock 2) ''in/c.png'')
       = Some ''No text could be extracted from document''"
    using contained [where p = sample_pipeline and clock = "sample_clock 2"
                 and file_path = "''in/c.png''"
                 and e = "PyException ''No text could be extracted from document''"]
    by (simp add: sample_stages)
  have parser_case: "error (process_single_document
               (document_pipeline sample_ocr ein_failing_generator ''t'' written_json lucky_draws)
               (sample_clock 0) ''in/a.pdf'') = Some ''backend unavailable''"
    using contained [where p = "document_pipeline sample_ocr ein_failing_generator ''t'' written_json lucky_draws"
                 and clock = "sample_clock 0" and file_path = "''in/a.pdf''"
                 and e = "PyException ''backend unavailable''"]
    by (simp add: process_stages_document_pipeline sample_ocr_def strip_samples
          parse_document_ein_failure)
  have validator_case: "error (process_single_document (stub_pipeline raising_validator raising_submitter)
               (sample_clock 0) ''in/a.pdf'') = Some ''validator crashed''"
    using contained
            [where p = "stub_pipeline raising_validator raising_submitter"
                 and clock = "sample_clock 0" and file_path = "''in/a.pdf''"
                 and e = "PyException ''validator crashed''" and extracted_text = "''Acme Corp''"
                 and d = "clean_record []"]
    by (simp add: stub_pipeline_def raising_validator_def strip_samples)
  have submitter_case: "error (process_single_document (stub_pipeline working_validator raising_submitter)
               (sample_clock 0) ''in/a.pdf'') = Some ''connection reset''"
    using contained [where p = "stub_pipeline working_validator raising_submitter"
                 and clock = "sample_clock 0" and file_path = "''in/a.pdf''"
                 and e = "PyException ''connection reset''" and extracted_text = "''Acme Corp''"
                 and d = "clean_record []" and v = "validate_document ''t'' (clean_record [])"]
    by (simp add: stub_pipeline_def working_validator_def raising_submitter_def strip_samples)
  have a: "processing_status (process_single_document sample_pipeline (sample_clock 0) ''in/a.pdf'')
       = ''completed''
     \<and> processing_time_seconds (process_single_document sample_pipeline (sample_clock 0) ''in/a.pdf'')
       = Some 2.5"
    using contained [where p = sample_pipeline and clock = "sample_clock 0" and file_path = "''in/a.pdf''"
                 and v = "validate_document ''t'' (extracted_record sparse_generator ''Acme Corp'' (Some ''a.pdf''))"
                 and s = "submit_document written_json lucky_draws ''t''
                   (validate_document ''t'' (extracted_record sparse_generator ''Acme Corp'' (Some ''a.pdf'')))"]
    by (simp add: sample_stage_completed sample_clock_elapsed)
  have batch: "snd (process_files sample_pipeline sample_clock None three_files)
       = [process_single_document sample_pipeline (sample_clock 0) ''in/a.pdf'',
          process_single_document sample_pipeline (sample_clock 1) ''in/b.pdf'',
          process_single_document sample_pipeline (sample_clock 2) ''in/c.png'']"
    using contained [where p = sample_pipeline and clocks = sample_clock and files = three_files
                       and callback = None]
    by (simp add: three_files_def step_result_def numeral_2_eq_2)
  have c_status: "processing_status (process_single_document sample_pipeline (sample_clock 2) ''in/c.png'')
       = ''failed''"
    by (simp add: process_single_document_status sample_stages)
  have ocr_b: "ocr_extract_text sample_pipeline ''in/b.pdf''
       = Inl (PyException ''cannot identify image file'')"
    and ocr_c: "ocr_extract_text sample_pipeline ''in/c.png'' = Inr ''   ''"
    by (simp_all add: sample_pipeline_def document_pipeline_def sample_ocr_def)
  have llm: "llm_parse_document
         (document_pipeline sample_ocr ein_failing_generator ''t'' written_json lucky_draws)
         ''Acme Corp'' (Some ''a.pdf'') = Inl (PyException ''backend unavailable'')"
    by (simp add: document_pipeline_def parse_document_ein_failure)
  show ?thesis
    using a b c parser_case validator_case submitter_case c_status ocr_b ocr_c llm
    by (simp add: batch)
qed

end
